theory Spec2Isabelle
  imports Main "HOL-Library.AList"
begin

section \<open>Data model\<close>

text \<open>
  The entities of \<^verbatim>\<open>optimizely/decision_service.py\<close>. Python objects become records,
  dictionaries become maps, \<^verbatim>\<open>None\<close> becomes \<open>None\<close> of an option type. The logger is a
  sink that no result depends on: calls to it are left out, the decision reasons the
  functions return are kept.
\<close>

text \<open>A user attribute value is any Python scalar, \<^verbatim>\<open>None\<close> included (\<open>ANull\<close>);
  \<open>ADouble m e\<close> stands for a float given by mantissa and exponent.\<close>

datatype attr_value = AStr string | ABool bool | AInt int | ADouble int int | ANull

type_synonym user_attributes = "string \<rightharpoonup> attr_value"

record variation =
  variation_id :: string
  variation_key :: string

datatype condition = AudienceId string | Operator string "condition list"

record "experiment" =
  experiment_id :: string
  experiment_key :: string
  status :: string
  forcedVariations :: "string \<rightharpoonup> string"
  audienceIds :: "string list"
  audienceConditions :: "condition list option"

record rollout =
  rollout_id :: string
  rollout_experiments :: "experiment list"

record feature_flag =
  feature_key :: string
  rolloutId :: "string option"
  experimentIds :: "string list"

record user_context =
  user_id :: string
  user_attributes :: "user_attributes option"
  forced_decisions :: "(string \<times> string option) \<rightharpoonup> string"

datatype decision_source = EXPERIMENT | FEATURE_TEST | ROLLOUT

text \<open>\<^verbatim>\<open>class Decision(NamedTuple)\<close>: experiment, variation, source.\<close>

record decision =
  "experiment" :: "experiment option"
  variation :: "variation option"
  source :: "decision_source option"

definition Decision :: "experiment option \<Rightarrow> variation option \<Rightarrow> decision_source \<Rightarrow> decision" where
  "Decision e v s = \<lparr>experiment = e, variation = v, source = Some s\<rparr>"

text \<open>The read-only lookups of \<^verbatim>\<open>ProjectConfig\<close>; each may answer "not found".\<close>

record project_config =
  get_experiment_from_key :: "string \<Rightarrow> experiment option"
  get_experiment_from_id :: "string \<Rightarrow> experiment option"
  get_variation_from_key :: "string \<Rightarrow> string \<Rightarrow> variation option"
  get_variation_from_id :: "string \<Rightarrow> string \<Rightarrow> variation option"
  get_rollout_from_id :: "string \<Rightarrow> rollout option"
  get_rollout_experiments :: "rollout \<Rightarrow> experiment list"
  get_flag_variation :: "string \<Rightarrow> string \<Rightarrow> string \<Rightarrow> variation option"

text \<open>\<^verbatim>\<open>forced_variation_map\<close>: user id to a dictionary from experiment id to variation
  id. The inner dictionary is tested for emptiness, so it is kept as an association list in
  insertion order, as a Python dictionary is.\<close>

type_synonym forced_variation_map = "string \<rightharpoonup> (string \<times> string) list"

section \<open>Bucketing id\<close>

text \<open>Modelled from the spec: \<^verbatim>\<open>enums.ControlAttributes.BUCKETING_ID\<close> is not among the
  sources; it is the name of the reserved "bucketing id" attribute.\<close>

definition BUCKETING_ID :: string where
  "BUCKETING_ID = ''$opt_bucketing_id''"

text \<open>\<^verbatim>\<open>DecisionService._get_bucketing_id\<close>. \<^verbatim>\<open>attributes or UserAttributes({})\<close> turns
  \<^verbatim>\<open>None\<close> into the empty dictionary; \<^verbatim>\<open>attributes.get\<close> answers \<^verbatim>\<open>None\<close> both for a
  missing key and for a key bound to \<^verbatim>\<open>None\<close>.\<close>

definition attributes_get :: "user_attributes \<Rightarrow> string \<Rightarrow> attr_value" where
  "attributes_get attributes k = (case attributes k of None \<Rightarrow> ANull | Some v \<Rightarrow> v)"

definition get_bucketing_id :: "string \<Rightarrow> user_attributes option \<Rightarrow> string \<times> string list" where
  "get_bucketing_id uid attributes =
    (let decide_reasons = [];
         attributes = (case attributes of None \<Rightarrow> Map.empty | Some a \<Rightarrow> a);
         bucketing_id = attributes_get attributes BUCKETING_ID
     in if bucketing_id \<noteq> ANull then
          (case bucketing_id of
             AStr s \<Rightarrow> (s, decide_reasons)
           | _ \<Rightarrow> (uid, decide_reasons @
                     [''Bucketing ID attribute is not a string. Defaulted to user_id.'']))
        else (uid, decide_reasons))"

section \<open>Forced-variation store\<close>

text \<open>Modelled from the spec: \<^verbatim>\<open>validator.is_non_empty_string\<close> is not among the sources;
  a variation key is invalid when it is empty.\<close>

definition is_non_empty_string :: "string \<Rightarrow> bool" where
  "is_non_empty_string s = (s \<noteq> [])"

text \<open>\<^verbatim>\<open>DecisionService.set_forced_variation\<close>: the result and the map afterwards.
  \<^verbatim>\<open>del self.forced_variation_map[user_id][experiment_id]\<close> removes the key of the inner
  dictionary and keeps the user's entry.\<close>

definition set_forced_variation ::
  "forced_variation_map \<Rightarrow> project_config \<Rightarrow> string \<Rightarrow> string \<Rightarrow> string option
    \<Rightarrow> bool \<times> forced_variation_map" where
  "set_forced_variation fvm cfg ekey uid vkey =
    (case get_experiment_from_key cfg ekey of
       None \<Rightarrow> (False, fvm)
     | Some exp \<Rightarrow>
        (let eid = experiment_id exp in
         case vkey of
           None \<Rightarrow>
             (case fvm uid of
                Some experiment_to_variation_map \<Rightarrow>
                  (if eid \<in> fst ` set experiment_to_variation_map
                   then (True, fvm(uid \<mapsto> AList.delete eid experiment_to_variation_map))
                   else (True, fvm))
              | None \<Rightarrow> (True, fvm))
         | Some vk \<Rightarrow>
             (if \<not> is_non_empty_string vk then (False, fvm)
              else case get_variation_from_key cfg ekey vk of
                     None \<Rightarrow> (False, fvm)
                   | Some forced_variation \<Rightarrow>
                       (let vid = variation_id forced_variation in
                        case fvm uid of
                          None \<Rightarrow> (True, fvm(uid \<mapsto> [(eid, vid)]))
                        | Some m \<Rightarrow> (True, fvm(uid \<mapsto> AList.update eid vid m))))))"

text \<open>\<^verbatim>\<open>DecisionService.get_forced_variation\<close>.\<close>

definition get_forced_variation ::
  "forced_variation_map \<Rightarrow> project_config \<Rightarrow> string \<Rightarrow> string \<Rightarrow> variation option \<times> string list" where
  \<open>get_forced_variation fvm cfg ekey uid =
    (let decide_reasons = [] in
     case fvm uid of
       None \<Rightarrow> (None, decide_reasons)
     | Some experiment_to_variation_map \<Rightarrow>
        (case get_experiment_from_key cfg ekey of
           None \<Rightarrow> (None, decide_reasons)
         | Some exp \<Rightarrow>
            (if experiment_to_variation_map = [] then (None, decide_reasons)
             else case map_of experiment_to_variation_map (experiment_id exp) of
                    None \<Rightarrow> (None, decide_reasons)
                  | Some vid \<Rightarrow>
                     (case get_variation_from_id cfg ekey vid of
                        None \<Rightarrow> (None, decide_reasons)
                      | Some v \<Rightarrow>
                          (Some v, decide_reasons @
                            [''Variation "'' @ variation_key v @ ''" is mapped to experiment "'' @ ekey
                              @ ''" and user "'' @ uid @ ''" in the forced variation map''])))))\<close>

text \<open>\<^verbatim>\<open>DecisionService.get_whitelisted_variation\<close>. An empty or missing
  \<^verbatim>\<open>forcedVariations\<close> dictionary holds no user.\<close>

definition get_whitelisted_variation ::
  "project_config \<Rightarrow> experiment \<Rightarrow> string \<Rightarrow> variation option \<times> string list" where
  \<open>get_whitelisted_variation cfg exp uid =
    (let decide_reasons = [] in
     case forcedVariations exp uid of
       Some forced_variation_key \<Rightarrow>
         (case get_variation_from_key cfg (experiment_key exp) forced_variation_key of
            Some forced_variation \<Rightarrow>
              (Some forced_variation, decide_reasons @
                 [''User "'' @ uid @ ''" is forced in variation "'' @ forced_variation_key @ ''".''])
          | None \<Rightarrow> (None, decide_reasons))
     | None \<Rightarrow> (None, decide_reasons))\<close>

section \<open>User profile\<close>

text \<open>Modelled from the spec: the module \<^verbatim>\<open>user_profile\<close> is not among the sources. A
  profile is a user id and a map from experiment id to variation id; the tracker holds the
  profile of one user and whether a decision was recorded in it since it was loaded;
  loading asks the service once and leaves the list of reasons it is handed as it is,
  saving hands the profile to the service when it was changed. The calls that reach the
  service are recorded in order.\<close>

record user_profile =
  profile_user_id :: string
  experiment_bucket_map :: "string \<rightharpoonup> string"

record user_profile_service =
  lookup :: "string \<Rightarrow> user_profile option"

datatype service_call = Lookup string | Save user_profile

record user_profile_tracker =
  tracker_user_id :: string
  tracker_user_profile :: user_profile
  profile_updated :: bool

definition get_variation_for_experiment :: "user_profile \<Rightarrow> string \<Rightarrow> string option" where
  "get_variation_for_experiment p eid = experiment_bucket_map p eid"

definition UserProfileTracker :: "string \<Rightarrow> user_profile_tracker" where
  "UserProfileTracker uid =
     \<lparr>tracker_user_id = uid,
      tracker_user_profile = \<lparr>profile_user_id = uid, experiment_bucket_map = Map.empty\<rparr>,
      profile_updated = False\<rparr>"

definition get_user_profile :: "user_profile_tracker \<Rightarrow> user_profile" where
  "get_user_profile t = tracker_user_profile t"

definition load_user_profile ::
  "user_profile_service \<Rightarrow> user_profile_tracker \<Rightarrow> service_call list
     \<Rightarrow> user_profile_tracker \<times> service_call list" where
  "load_user_profile ups t calls =
     (case lookup ups (tracker_user_id t) of
        None \<Rightarrow> (t, calls @ [Lookup (tracker_user_id t)])
      | Some p \<Rightarrow> (t\<lparr>tracker_user_profile := p\<rparr>, calls @ [Lookup (tracker_user_id t)]))"

definition update_user_profile ::
  "user_profile_tracker \<Rightarrow> experiment \<Rightarrow> variation \<Rightarrow> user_profile_tracker" where
  "update_user_profile t exp v =
     t\<lparr>tracker_user_profile :=
         (tracker_user_profile t)\<lparr>experiment_bucket_map :=
            (experiment_bucket_map (tracker_user_profile t))(experiment_id exp \<mapsto> variation_id v)\<rparr>,
       profile_updated := True\<rparr>"

definition save_user_profile :: "user_profile_tracker \<Rightarrow> service_call list \<Rightarrow> service_call list" where
  "save_user_profile t calls =
     (if \<not> profile_updated t then calls else calls @ [Save (tracker_user_profile t)])"

text \<open>\<^verbatim>\<open>DecisionService.get_stored_variation\<close>. \<^verbatim>\<open>if variation_id:\<close> is false for
  \<^verbatim>\<open>None\<close> and for the empty string.\<close>

definition get_stored_variation ::
  "project_config \<Rightarrow> experiment \<Rightarrow> user_profile \<Rightarrow> variation option" where
  "get_stored_variation cfg exp profile =
    (case get_variation_for_experiment profile (experiment_id exp) of
       None \<Rightarrow> None
     | Some vid \<Rightarrow>
         (if vid \<noteq> [] then
            (case get_variation_from_id cfg (experiment_key exp) vid of
               Some v \<Rightarrow> Some v
             | None \<Rightarrow> None)
          else None))"

section \<open>External collaborators\<close>

text \<open>The audience evaluator, the bucketer, the printing of entities in messages and the
  message templates of \<^verbatim>\<open>enums.ForcedDecisionLogs\<close> are outside the decision service:
  they are parameters, and every theorem holds whatever they compute.\<close>

datatype audience_logs = ExperimentAudienceEvaluationLogs | RolloutRuleAudienceEvaluationLogs

datatype forced_decision_log =
    USER_HAS_FORCED_DECISION_WITH_RULE_SPECIFIED
  | USER_HAS_FORCED_DECISION_WITHOUT_RULE_SPECIFIED
  | USER_HAS_FORCED_DECISION_WITH_RULE_SPECIFIED_BUT_INVALID
  | USER_HAS_FORCED_DECISION_WITHOUT_RULE_SPECIFIED_BUT_INVALID

record collaborators =
  does_user_meet_audience_conditions ::
    "project_config \<Rightarrow> condition list \<Rightarrow> audience_logs \<Rightarrow> string \<Rightarrow> user_context \<Rightarrow> bool \<times> string list"
  bucket :: "project_config \<Rightarrow> experiment \<Rightarrow> string \<Rightarrow> string \<Rightarrow> variation option \<times> string list"
  str_variation :: "variation \<Rightarrow> string"
  str_experiment :: "experiment \<Rightarrow> string"
  format_log :: "forced_decision_log \<Rightarrow> string list \<Rightarrow> string"

text \<open>Modelled from the spec: \<^verbatim>\<open>experiment_helper.is_experiment_running\<close>,
  \<^verbatim>\<open>Experiment.get_audience_conditions_or_ids\<close> and
  \<^verbatim>\<open>OptimizelyDecideOption.IGNORE_USER_PROFILE_SERVICE\<close> are not among the sources. An
  experiment runs when its status says so; its audience is the condition expression, or
  the legacy list of audience ids when there is no expression.\<close>

definition is_experiment_running :: "experiment \<Rightarrow> bool" where
  "is_experiment_running exp = (status exp = ''Running'')"

definition get_audience_conditions_or_ids :: "experiment \<Rightarrow> condition list" where
  "get_audience_conditions_or_ids exp =
     (case audienceConditions exp of Some cs \<Rightarrow> cs | None \<Rightarrow> map AudienceId (audienceIds exp))"

definition IGNORE_USER_PROFILE_SERVICE :: string where
  "IGNORE_USER_PROFILE_SERVICE = ''IGNORE_USER_PROFILE_SERVICE''"

text \<open>\<^verbatim>\<open>if options: ... in options else False\<close>, in \<^verbatim>\<open>get_variation\<close> and in
  \<^verbatim>\<open>get_variations_for_feature_list\<close>.\<close>

definition ignore_user_profile :: "string list option \<Rightarrow> bool" where
  "ignore_user_profile options =
     (case options of
        None \<Rightarrow> False
      | Some os \<Rightarrow> if os \<noteq> [] then IGNORE_USER_PROFILE_SERVICE \<in> set os else False)"

section \<open>Experiment decision\<close>

text \<open>\<^verbatim>\<open>DecisionService.get_variation\<close>: the variation, the reasons and the tracker
  afterwards. The \<^verbatim>\<open>try\<close> around \<^verbatim>\<open>update_user_profile\<close> catches whatever the update
  raises; the update modelled here raises nothing.\<close>

definition get_variation ::
  "collaborators \<Rightarrow> forced_variation_map \<Rightarrow> project_config \<Rightarrow> experiment \<Rightarrow> user_context
     \<Rightarrow> user_profile_tracker option \<Rightarrow> string list \<Rightarrow> string list option
     \<Rightarrow> variation option \<times> string list \<times> user_profile_tracker option" where
  \<open>get_variation E fvm cfg exp ctx tracker reasons options =
    (let uid = user_id ctx;
         ignore = ignore_user_profile options;
         decide_reasons = [] @ reasons
     in
     if \<not> is_experiment_running exp then
       (None, decide_reasons @ [''Experiment "'' @ experiment_key exp @ ''" is not running.''], tracker)
     else
     case get_forced_variation fvm cfg (experiment_key exp) uid of (forced, reasons_received) \<Rightarrow>
     let decide_reasons = decide_reasons @ reasons_received in
     case forced of Some v \<Rightarrow> (Some v, decide_reasons, tracker) | None \<Rightarrow>
     case get_whitelisted_variation cfg exp uid of (whitelisted, reasons_received) \<Rightarrow>
     let decide_reasons = decide_reasons @ reasons_received in
     case whitelisted of Some v \<Rightarrow> (Some v, decide_reasons, tracker) | None \<Rightarrow>
     let stored =
       (case tracker of
          Some t \<Rightarrow> if \<not> ignore then get_stored_variation cfg exp (get_user_profile t) else None
        | None \<Rightarrow> None)
     in
     case stored of
       Some v \<Rightarrow>
         (Some v, decide_reasons @
            [''Returning previously activated variation ID "'' @ str_variation E v
              @ ''" of experiment "'' @ str_experiment E exp @ ''" for user "'' @ uid
              @ ''" from user profile.''], tracker)
     | None \<Rightarrow>
     let audience_conditions = get_audience_conditions_or_ids exp in
     case does_user_meet_audience_conditions E cfg audience_conditions
            ExperimentAudienceEvaluationLogs (experiment_key exp) ctx
     of (user_meets_audience_conditions, reasons_received) \<Rightarrow>
     let decide_reasons = decide_reasons @ reasons_received in
     if \<not> user_meets_audience_conditions then
       (None, decide_reasons @
          [''User "'' @ uid @ ''" does not meet conditions to be in experiment "''
             @ experiment_key exp @ ''".''], tracker)
     else
     case get_bucketing_id uid (user_attributes ctx) of (bucketing_id, bucketing_id_reasons) \<Rightarrow>
     let decide_reasons = decide_reasons @ bucketing_id_reasons in
     case bucket E cfg exp uid bucketing_id of (bucketed, bucket_reasons) \<Rightarrow>
     let decide_reasons = decide_reasons @ bucket_reasons in
     case bucketed of
       Some v \<Rightarrow>
         (Some v, decide_reasons @
            [''User "'' @ uid @ ''" is in variation "'' @ variation_key v @ ''" of experiment ''
               @ experiment_key exp @ ''.''],
          case tracker of
            Some t \<Rightarrow> if \<not> ignore then Some (update_user_profile t exp v) else Some t
          | None \<Rightarrow> None)
     | None \<Rightarrow> (None, decide_reasons @ [''User "'' @ uid @ ''" is in no variation.''], tracker))\<close>

section \<open>Forced decisions\<close>

text \<open>\<^verbatim>\<open>DecisionService.validated_forced_decision\<close>. The decision context is the pair of
  flag key and rule key; \<^verbatim>\<open>user_context.get_forced_decision\<close> looks it up among the
  forced decisions of the user context. The project config is always given, so the branch
  \<^verbatim>\<open>if not project_config\<close> is never taken.\<close>

definition get_forced_decision :: "user_context \<Rightarrow> string \<times> string option \<Rightarrow> string option" where
  "get_forced_decision ctx decision_context = forced_decisions ctx decision_context"

definition validated_forced_decision ::
  "collaborators \<Rightarrow> project_config \<Rightarrow> string \<times> string option \<Rightarrow> user_context
     \<Rightarrow> variation option \<times> string list" where
  "validated_forced_decision E cfg decision_context ctx =
    (let reasons = [];
         flag_key = fst decision_context;
         rule_key = snd decision_context;
         rule_given = (case rule_key of None \<Rightarrow> False | Some r \<Rightarrow> r \<noteq> []);
         rule_text = (case rule_key of None \<Rightarrow> [] | Some r \<Rightarrow> r)
     in case get_forced_decision ctx decision_context of
          None \<Rightarrow> (None, reasons)
        | Some forced_variation_key \<Rightarrow>
            (case get_flag_variation cfg flag_key ''key'' forced_variation_key of
               Some v \<Rightarrow>
                 (Some v, reasons @
                   [if rule_given
                    then format_log E USER_HAS_FORCED_DECISION_WITH_RULE_SPECIFIED
                           [forced_variation_key, flag_key, rule_text, user_id ctx]
                    else format_log E USER_HAS_FORCED_DECISION_WITHOUT_RULE_SPECIFIED
                           [forced_variation_key, flag_key, user_id ctx]])
             | None \<Rightarrow>
                 (None, reasons @
                   [if rule_given
                    then format_log E USER_HAS_FORCED_DECISION_WITH_RULE_SPECIFIED_BUT_INVALID
                           [flag_key, rule_text, user_id ctx]
                    else format_log E USER_HAS_FORCED_DECISION_WITHOUT_RULE_SPECIFIED_BUT_INVALID
                           [flag_key, user_id ctx]])))"

section \<open>Rollout decision\<close>

text \<open>\<^verbatim>\<open>str(index + 1)\<close>: a natural number in decimal.\<close>

fun string_of_nat :: "nat \<Rightarrow> string" where
  "string_of_nat n =
     (if n < 10 then [char_of (48 + n)]
      else string_of_nat (n div 10) @ [char_of (48 + n mod 10)])"

declare string_of_nat.simps [simp del]

text \<open>One pass through the body of the \<^verbatim>\<open>while\<close> loop of
  \<^verbatim>\<open>get_variation_for_rollout\<close>, at an index inside the rule list: \<open>Inl\<close> is a
  \<^verbatim>\<open>return\<close>, \<open>Inr\<close> the index and the reasons the next pass starts with. The
  \<^verbatim>\<open>continue\<close> taken when the rule's id does not resolve goes back to the loop test
  without passing the assignment to \<^verbatim>\<open>index\<close> at the end of the body.\<close>

definition rollout_step ::
  "collaborators \<Rightarrow> project_config \<Rightarrow> feature_flag \<Rightarrow> user_context \<Rightarrow> experiment list
     \<Rightarrow> nat \<Rightarrow> string list \<Rightarrow> (decision \<times> string list) + (nat \<times> string list)" where
  \<open>rollout_step E cfg feature ctx rollout_rules index decide_reasons =
    (let uid = user_id ctx;
         attributes = user_attributes ctx;
         rule = rollout_rules ! index
     in
     case validated_forced_decision E cfg (feature_key feature, Some (experiment_key rule)) ctx
     of (forced_decision_variation, reasons_received) \<Rightarrow>
     let decide_reasons = decide_reasons @ reasons_received in
     case forced_decision_variation of
       Some v \<Rightarrow> Inl (Decision (Some rule) (Some v) ROLLOUT, decide_reasons)
     | None \<Rightarrow>
     case get_bucketing_id uid attributes of (bucketing_id, bucket_reasons) \<Rightarrow>
     let decide_reasons = decide_reasons @ bucket_reasons;
         everyone_else = (index = length rollout_rules - 1);
         logging_key = (if everyone_else then ''Everyone Else'' else string_of_nat (index + 1))
     in
     case get_experiment_from_id cfg (experiment_id rule) of
       None \<Rightarrow> Inr (index, decide_reasons)
     | Some rollout_rule \<Rightarrow>
     let audience_conditions = get_audience_conditions_or_ids rollout_rule in
     case does_user_meet_audience_conditions E cfg audience_conditions
            RolloutRuleAudienceEvaluationLogs logging_key ctx
     of (audience_decision_response, reasons_received_audience) \<Rightarrow>
     let decide_reasons = decide_reasons @ reasons_received_audience in
     if audience_decision_response then
       (let decide_reasons = decide_reasons @
              [''User "'' @ uid @ ''" meets audience conditions for targeting rule ''
                 @ logging_key @ ''.'']
        in
        case bucket E cfg rollout_rule uid bucketing_id of (bucketed_variation, bucket_reasons) \<Rightarrow>
        let decide_reasons = decide_reasons @ bucket_reasons in
        case bucketed_variation of
          Some v \<Rightarrow>
            Inl (Decision (Some rule) (Some v) ROLLOUT, decide_reasons @
                   [''User "'' @ uid @ ''" bucketed into a targeting rule '' @ logging_key @ ''.''])
        | None \<Rightarrow>
            if \<not> everyone_else then
              Inr (length rollout_rules - 1, decide_reasons @
                     [''User "'' @ uid @ ''" not bucketed into a targeting rule '' @ logging_key
                        @ ''. Checking "Everyone Else" rule now.''])
            else Inr (index + 1, decide_reasons))
     else
       Inr (index + 1, decide_reasons @
              [''User "'' @ uid @ ''" does not meet audience conditions for targeting rule ''
                 @ logging_key @ ''.'']))\<close>

text \<open>The \<^verbatim>\<open>while index < len(rollout_rules)\<close> loop. A run that never leaves the loop
  has the value \<open>None\<close>.\<close>

partial_function (option) rollout_loop ::
  "collaborators \<Rightarrow> project_config \<Rightarrow> feature_flag \<Rightarrow> user_context \<Rightarrow> experiment list
     \<Rightarrow> nat \<Rightarrow> string list \<Rightarrow> (decision \<times> string list) option" where
  "rollout_loop E cfg feature ctx rollout_rules index decide_reasons =
     (if index < length rollout_rules then
        (case rollout_step E cfg feature ctx rollout_rules index decide_reasons of
           Inl result \<Rightarrow> Some result
         | Inr next_pass \<Rightarrow>
             rollout_loop E cfg feature ctx rollout_rules (fst next_pass) (snd next_pass))
      else Some (Decision None None ROLLOUT, decide_reasons))"

declare rollout_loop.simps [code]

text \<open>\<^verbatim>\<open>DecisionService.get_variation_for_rollout\<close>. \<^verbatim>\<open>not feature.rolloutId\<close> holds for
  \<^verbatim>\<open>None\<close> and for the empty string.\<close>

definition get_variation_for_rollout ::
  "collaborators \<Rightarrow> project_config \<Rightarrow> feature_flag \<Rightarrow> user_context
     \<Rightarrow> (decision \<times> string list) option" where
  "get_variation_for_rollout E cfg feature ctx =
    (let decide_reasons = [] in
     case rolloutId feature of
       None \<Rightarrow> Some (Decision None None ROLLOUT, decide_reasons)
     | Some rid \<Rightarrow>
        if rid = [] then Some (Decision None None ROLLOUT, decide_reasons)
        else
        case get_rollout_from_id cfg rid of
          None \<Rightarrow>
            Some (Decision None None ROLLOUT, decide_reasons @
                    [''There is no rollout of feature '' @ feature_key feature @ ''.''])
        | Some rollout \<Rightarrow>
            (let rollout_rules = get_rollout_experiments cfg rollout in
             if rollout_rules = [] then
               Some (Decision None None ROLLOUT, decide_reasons @
                       [''Rollout '' @ rollout_id rollout @ '' has no experiments.''])
             else rollout_loop E cfg feature ctx rollout_rules 0 decide_reasons))"

section \<open>Feature decisions\<close>

text \<open>The fields of \<^verbatim>\<open>DecisionService\<close> that decisions read.\<close>

record decision_service =
  forced_variation_map :: forced_variation_map
  user_profile_service :: "user_profile_service option"

text \<open>The inner loop of \<^verbatim>\<open>get_variations_for_feature_list\<close>,
  \<^verbatim>\<open>for experiment_id in feature.experimentIds\<close>: the decision at the \<^verbatim>\<open>break\<close> (or
  \<open>None\<close> when the ids run out), the feature's reasons and the tracker. The reasons
  that \<^verbatim>\<open>get_variation\<close> returns start with the reasons it was given, and the caller
  extends its list with all of them.\<close>

fun feature_experiments ::
  "collaborators \<Rightarrow> decision_service \<Rightarrow> project_config \<Rightarrow> feature_flag \<Rightarrow> user_context
     \<Rightarrow> string list option \<Rightarrow> string list \<Rightarrow> string list \<Rightarrow> user_profile_tracker option
     \<Rightarrow> decision option \<times> string list \<times> user_profile_tracker option" where
  "feature_experiments E svc cfg feature ctx options [] feature_reasons tracker =
     (None, feature_reasons, tracker)"
| "feature_experiments E svc cfg feature ctx options (eid # ids) feature_reasons tracker =
     (case get_experiment_from_id cfg eid of
        None \<Rightarrow> feature_experiments E svc cfg feature ctx options ids feature_reasons tracker
      | Some exp \<Rightarrow>
         (case validated_forced_decision E cfg (feature_key feature, Some (experiment_key exp)) ctx
          of (forced_decision_variation, reasons_received) \<Rightarrow>
          let feature_reasons = feature_reasons @ reasons_received in
          case forced_decision_variation of
            Some v \<Rightarrow> (Some (Decision (Some exp) (Some v) FEATURE_TEST), feature_reasons, tracker)
          | None \<Rightarrow>
             (case get_variation E (forced_variation_map svc) cfg exp ctx tracker feature_reasons options
              of (decision_variation, variation_reasons, tracker') \<Rightarrow>
              let feature_reasons = feature_reasons @ variation_reasons in
              case decision_variation of
                Some v \<Rightarrow>
                  (Some (Decision (Some exp) (Some v) FEATURE_TEST), feature_reasons, tracker')
              | None \<Rightarrow>
                  feature_experiments E svc cfg feature ctx options ids feature_reasons tracker')))"

text \<open>The outer loop, \<^verbatim>\<open>for feature in features\<close>, with the list \<^verbatim>\<open>decisions\<close> it
  appends to. It returns nothing when a rollout evaluation never returns.\<close>

fun features_loop ::
  "collaborators \<Rightarrow> decision_service \<Rightarrow> project_config \<Rightarrow> user_context \<Rightarrow> string list option
     \<Rightarrow> string list \<Rightarrow> feature_flag list \<Rightarrow> (decision \<times> string list) list
     \<Rightarrow> user_profile_tracker option
     \<Rightarrow> ((decision \<times> string list) list \<times> user_profile_tracker option) option" where
  "features_loop E svc cfg ctx options decide_reasons [] decisions tracker =
     Some (decisions, tracker)"
| "features_loop E svc cfg ctx options decide_reasons (feature # features) decisions tracker =
     (case feature_experiments E svc cfg feature ctx options (experimentIds feature)
             decide_reasons tracker
      of (found, feature_reasons, tracker') \<Rightarrow>
      case found of
        Some d \<Rightarrow>
          features_loop E svc cfg ctx options decide_reasons features
            (decisions @ [(d, feature_reasons)]) tracker'
      | None \<Rightarrow>
         (case get_variation_for_rollout E cfg feature ctx of
            None \<Rightarrow> None
          | Some (rollout_decision, rollout_reasons) \<Rightarrow>
              features_loop E svc cfg ctx options decide_reasons features
                (decisions @ [(rollout_decision, feature_reasons @ rollout_reasons)]) tracker'))"

text \<open>\<^verbatim>\<open>DecisionService.get_variations_for_feature_list\<close>: the decisions (\<open>None\<close> when
  the call never returns) and the calls received by the user profile service, which start
  from \<open>calls\<close>. The loops over the features reach the service nowhere, so a call that
  never returns has made the calls of the load and no other.\<close>

definition get_variations_for_feature_list ::
  "collaborators \<Rightarrow> decision_service \<Rightarrow> project_config \<Rightarrow> feature_flag list \<Rightarrow> user_context
     \<Rightarrow> string list option \<Rightarrow> service_call list
     \<Rightarrow> (decision \<times> string list) list option \<times> service_call list" where
  "get_variations_for_feature_list E svc cfg features ctx options calls =
    (let decide_reasons = [];
         ignore_ups = ignore_user_profile options;
         loaded =
           (case user_profile_service svc of
              Some ups \<Rightarrow>
                if \<not> ignore_ups then
                  (case load_user_profile ups (UserProfileTracker (user_id ctx)) calls of
                     (t, calls') \<Rightarrow> (Some t, calls'))
                else (None, calls)
            | None \<Rightarrow> (None, calls))
     in
     case features_loop E svc cfg ctx options decide_reasons features [] (fst loaded) of
       None \<Rightarrow> (None, snd loaded)
     | Some (decisions, tracker) \<Rightarrow>
         (Some decisions,
          case tracker of
            Some t \<Rightarrow>
              if user_profile_service svc \<noteq> None \<and> \<not> ignore_ups
              then save_user_profile t (snd loaded) else snd loaded
          | None \<Rightarrow> snd loaded))"

text \<open>\<^verbatim>\<open>DecisionService.get_variation_for_feature\<close>: element \<^verbatim>\<open>[0]\<close> of the list for the
  one feature; indexing an empty list raises \<^verbatim>\<open>IndexError\<close>.\<close>

datatype error = IndexError

definition get_variation_for_feature ::
  "collaborators \<Rightarrow> decision_service \<Rightarrow> project_config \<Rightarrow> feature_flag \<Rightarrow> user_context
     \<Rightarrow> string list option \<Rightarrow> service_call list
     \<Rightarrow> (error + decision \<times> string list) option \<times> service_call list" where
  "get_variation_for_feature E svc cfg feature ctx options calls =
    (case get_variations_for_feature_list E svc cfg [feature] ctx options calls of
       (None, calls') \<Rightarrow> (None, calls')
     | (Some decisions, calls') \<Rightarrow>
         (Some (case decisions of [] \<Rightarrow> Inl IndexError | d # _ \<Rightarrow> Inr d), calls'))"

section \<open>Event dispatch\<close>

text \<open>\<^verbatim>\<open>optimizely/event_dispatcher.py\<close>. The HTTP library is outside the repository: what
  a session answers to a request is a parameter (\<open>send\<close>), and so are \<^verbatim>\<open>json.dumps\<close>
  and the printing of an exception. A request records what \<^verbatim>\<open>session.get\<close> or
  \<^verbatim>\<open>session.post\<close> is called with, and the retry policy mounted on the session. One
  call is one request here; the attempts that the library makes for it are the library's,
  and the policy decides after each response whether another one follows.\<close>

datatype json = JNull | JBool bool | JNum int | JStr string | JList "json list"
  | JObj "(string \<times> json) list"

record event =
  url :: string
  params :: json
  http_verb :: string
  headers :: "(string \<times> string) list"

text \<open>The retry policy. \<^verbatim>\<open>Retry\<close> is a class of the HTTP library urllib3, which is not part
  of the repository; what follows is read from \<^verbatim>\<open>urllib3/util/retry.py\<close> (version 1.26).
  The constructor called with \<^verbatim>\<open>total\<close>, \<^verbatim>\<open>backoff_factor\<close> and
  \<^verbatim>\<open>status_forcelist\<close> leaves \<^verbatim>\<open>allowed_methods\<close> and
  \<^verbatim>\<open>respect_retry_after_header\<close> at their defaults,
  \<^verbatim>\<open>DEFAULT_ALLOWED_METHODS\<close> and \<^verbatim>\<open>True\<close>. The backoff factor 0.1 is kept as the
  fraction 1/10.\<close>

record retry =
  total :: nat
  backoff_factor :: "int \<times> int"
  status_forcelist :: "nat list"
  allowed_methods :: "string list"
  respect_retry_after_header :: bool

definition DEFAULT_ALLOWED_METHODS :: "string list" where
  "DEFAULT_ALLOWED_METHODS = [''HEAD'', ''GET'', ''PUT'', ''DELETE'', ''OPTIONS'', ''TRACE'']"

definition RETRY_AFTER_STATUS_CODES :: "nat list" where
  "RETRY_AFTER_STATUS_CODES = [413, 429, 503]"

definition Retry :: "nat \<Rightarrow> int \<times> int \<Rightarrow> nat list \<Rightarrow> retry" where
  "Retry n factor forcelist =
     \<lparr>total = n, backoff_factor = factor, status_forcelist = forcelist,
      allowed_methods = DEFAULT_ALLOWED_METHODS, respect_retry_after_header = True\<rparr>"

text \<open>\<^verbatim>\<open>str.upper\<close> on the letters a to z.\<close>

definition upper :: "string \<Rightarrow> string" where
  "upper s =
     map (\<lambda>c. if (97::nat) \<le> of_char c \<and> of_char c \<le> (122::nat)
              then char_of (of_char c - (32::nat)) else c) s"

text \<open>\<^verbatim>\<open>Retry._is_method_retryable\<close> and \<^verbatim>\<open>Retry.is_retry\<close>: whether the policy asks
  for another attempt after a response with the given status, with or without a
  \<^verbatim>\<open>Retry-After\<close> header. \<^verbatim>\<open>self.total\<close> is false when it is 0.\<close>

definition is_method_retryable :: "retry \<Rightarrow> string \<Rightarrow> bool" where
  "is_method_retryable r method =
     (if allowed_methods r \<noteq> [] \<and> upper method \<notin> set (allowed_methods r) then False
      else True)"

definition is_retry :: "retry \<Rightarrow> string \<Rightarrow> nat \<Rightarrow> bool \<Rightarrow> bool" where
  "is_retry r method status_code has_retry_after =
     (if \<not> is_method_retryable r method then False
      else if status_forcelist r \<noteq> [] \<and> status_code \<in> set (status_forcelist r) then True
      else (total r \<noteq> 0 \<and> respect_retry_after_header r \<and> has_retry_after
            \<and> status_code \<in> set RETRY_AFTER_STATUS_CODES))"

record request =
  request_method :: string
  request_url :: string
  query_params :: "json option"
  request_data :: "string option"
  request_headers :: "(string \<times> string) list option"
  request_timeout :: nat
  max_retries :: retry

text \<open>The exceptions a call can end with: the first four are subclasses of
  \<^verbatim>\<open>requests.exceptions.RequestException\<close>, the last is any other exception.\<close>

datatype exception = ConnectionError | Timeout | HTTPError nat | RetryError | OtherException string

definition is_RequestException :: "exception \<Rightarrow> bool" where
  "is_RequestException e = (case e of OtherException _ \<Rightarrow> False | _ \<Rightarrow> True)"

datatype response = Response nat | Raises exception

text \<open>\<^verbatim>\<open>Response.raise_for_status\<close> raises \<^verbatim>\<open>HTTPError\<close> for a status from 400 to 599.\<close>

definition raise_for_status :: "nat \<Rightarrow> exception option" where
  "raise_for_status code = (if 400 \<le> code \<and> code < 600 then Some (HTTPError code) else None)"

text \<open>Modelled from the spec: \<^verbatim>\<open>helpers.enums\<close> is not among the sources. The verbs are
  GET and POST; the retry count and the request timeout of \<^verbatim>\<open>EventDispatchConfig\<close> are
  parameters.\<close>

definition GET :: string where "GET = ''GET''"
definition POST :: string where "POST = ''POST''"

record event_dispatch_config =
  RETRIES :: nat
  REQUEST_TIMEOUT :: nat

record http =
  send :: "request \<Rightarrow> response"
  json_dumps :: "json \<Rightarrow> string"
  str_exception :: "exception \<Rightarrow> string"

text \<open>What a call of \<^verbatim>\<open>dispatch_event\<close> does: the requests it sent, the exception that
  reached the caller (if any), the lines it logged with \<^verbatim>\<open>logging.error\<close>.\<close>

record dispatched =
  sent :: "request list"
  raised :: "exception option"
  logged :: "string list"

definition the_request :: "event_dispatch_config \<Rightarrow> http \<Rightarrow> event \<Rightarrow> request option" where
  "the_request conf H ev =
    (let retries = Retry (RETRIES conf) (1, 10) [500, 502, 503, 504]
     in if http_verb ev = GET then
          Some \<lparr>request_method = GET, request_url = url ev, query_params = Some (params ev),
                request_data = None, request_headers = None,
                request_timeout = REQUEST_TIMEOUT conf, max_retries = retries\<rparr>
        else if http_verb ev = POST then
          Some \<lparr>request_method = POST, request_url = url ev, query_params = None,
                request_data = Some (json_dumps H (params ev)), request_headers = Some (headers ev),
                request_timeout = REQUEST_TIMEOUT conf, max_retries = retries\<rparr>
        else None)"

text \<open>\<^verbatim>\<open>EventDispatcher.dispatch_event\<close>: the \<^verbatim>\<open>try\<close> block sends the request and calls
  \<^verbatim>\<open>raise_for_status\<close> on the response; \<^verbatim>\<open>except RequestException\<close> logs the error and
  lets every other exception through.\<close>

definition dispatch_event :: "event_dispatch_config \<Rightarrow> http \<Rightarrow> event \<Rightarrow> dispatched" where
  "dispatch_event conf H ev =
    (case the_request conf H ev of
       None \<Rightarrow> \<lparr>sent = [], raised = None, logged = []\<rparr>
     | Some req \<Rightarrow>
        (let failure =
               (case send H req of
                  Raises e \<Rightarrow> Some e
                | Response code \<Rightarrow> raise_for_status code)
         in case failure of
              None \<Rightarrow> \<lparr>sent = [req], raised = None, logged = []\<rparr>
            | Some e \<Rightarrow>
                if is_RequestException e then
                  \<lparr>sent = [req], raised = None,
                   logged = [''Dispatch event failed. Error: '' @ str_exception H e]\<rparr>
                else \<lparr>sent = [req], raised = Some e, logged = []\<rparr>))"

section \<open>An example project\<close>

text \<open>One experiment with two variations, a rollout of three targeting rules behind a
  flag, and a second flag whose rollout holds a rule that the config does not know by id.
  The example audience evaluator lets every user into every targeting rule and every user
  but \<open>user_1\<close> and \<open>user_3\<close> into the experiment; the example bucketer finds a
  variation in the experiment and in the last rule only.\<close>

definition example_var_a :: variation where
  "example_var_a = \<lparr>variation_id = ''v1'', variation_key = ''a''\<rparr>"

definition example_var_b :: variation where
  "example_var_b = \<lparr>variation_id = ''v2'', variation_key = ''b''\<rparr>"

definition example_rule :: "string \<Rightarrow> string \<Rightarrow> experiment" where
  "example_rule i k =
     \<lparr>experiment_id = i, experiment_key = k, status = ''Running'',
      forcedVariations = Map.empty, audienceIds = [], audienceConditions = None\<rparr>"

definition example_exp :: "experiment" where
  "example_exp = (example_rule ''e1'' ''exp_1'')\<lparr>forcedVariations := [''user_1'' \<mapsto> ''b'']\<rparr>"

definition example_rules :: "experiment list" where
  "example_rules =
     [example_rule ''r1'' ''rule_1'', example_rule ''r2'' ''rule_2'', example_rule ''r3'' ''rule_3'']"

definition example_feature :: feature_flag where
  "example_feature = \<lparr>feature_key = ''flag_1'', rolloutId = Some ''ro1'', experimentIds = [''e1'']\<rparr>"

definition example_feature_x :: feature_flag where
  "example_feature_x = \<lparr>feature_key = ''flag_x'', rolloutId = Some ''rox'', experimentIds = []\<rparr>"

definition example_config :: project_config where
  "example_config =
     \<lparr>get_experiment_from_key = (\<lambda>k. if k = ''exp_1'' then Some example_exp else None),
      get_experiment_from_id =
        (\<lambda>i. if i = ''e1'' then Some example_exp
             else if i = ''r1'' then Some (example_rule ''r1'' ''rule_1'')
             else if i = ''r2'' then Some (example_rule ''r2'' ''rule_2'')
             else if i = ''r3'' then Some (example_rule ''r3'' ''rule_3'')
             else None),
      get_variation_from_key =
        (\<lambda>ek vk. if ek = ''exp_1'' \<and> vk = ''a'' then Some example_var_a
                 else if ek = ''exp_1'' \<and> vk = ''b'' then Some example_var_b else None),
      get_variation_from_id =
        (\<lambda>ek vi. if ek = ''exp_1'' \<and> vi = ''v1'' then Some example_var_a
                 else if ek = ''exp_1'' \<and> vi = ''v2'' then Some example_var_b else None),
      get_rollout_from_id =
        (\<lambda>i. if i = ''ro1'' then Some \<lparr>rollout_id = ''ro1'', rollout_experiments = example_rules\<rparr>
             else if i = ''rox''
             then Some \<lparr>rollout_id = ''rox'', rollout_experiments = [example_rule ''rx'' ''rule_x'']\<rparr>
             else None),
      get_rollout_experiments = rollout_experiments,
      get_flag_variation = (\<lambda>flag attr v. None)\<rparr>"

definition example_collaborators :: collaborators where
  "example_collaborators =
     \<lparr>does_user_meet_audience_conditions =
        (\<lambda>cfg conditions logs logging_key ctx.
           (logs = RolloutRuleAudienceEvaluationLogs
              \<or> (user_id ctx \<noteq> ''user_1'' \<and> user_id ctx \<noteq> ''user_3''), [])),
      bucket =
        (\<lambda>cfg exp uid bucketing_id.
           (if experiment_id exp = ''e1'' then Some example_var_b
            else if experiment_id exp = ''r3'' then Some example_var_a else None, [])),
      str_variation = variation_key,
      str_experiment = experiment_key,
      format_log = (\<lambda>template args. concat args)\<rparr>"

definition example_user :: "string \<Rightarrow> user_context" where
  "example_user uid = \<lparr>user_id = uid, user_attributes = None, forced_decisions = Map.empty\<rparr>"

text \<open>A tracker whose loaded profile holds the given decisions.\<close>

definition example_tracker :: "string \<Rightarrow> (string \<rightharpoonup> string) \<Rightarrow> user_profile_tracker" where
  "example_tracker uid decisions =
     \<lparr>tracker_user_id = uid,
      tracker_user_profile = \<lparr>profile_user_id = uid, experiment_bucket_map = decisions\<rparr>,
      profile_updated = False\<rparr>"

definition example_service :: decision_service where
  "example_service =
     \<lparr>forced_variation_map = Map.empty,
      user_profile_service = Some \<lparr>lookup = (\<lambda>uid. None)\<rparr>\<rparr>"

text \<open>A POST event answered with status 404, and a GET event that ends in a connection
  error: each sends its one request, logs one line and returns.\<close>

definition example_http :: http where
  "example_http =
     \<lparr>send = (\<lambda>req. if request_method req = POST then Response 404 else Raises ConnectionError),
      json_dumps = (\<lambda>j. ''{}''),
      str_exception = (\<lambda>e. ''failed'')\<rparr>"

definition example_event :: "string \<Rightarrow> event" where
  "example_event verb = \<lparr>url = ''https://logx.example/v1/events'', params = JObj [],
                          http_verb = verb, headers = [(''Content-Type'', ''application/json'')]\<rparr>"

section \<open>Vocabulary of the properties\<close>

text \<open>The variation the forced-variation map holds for a user and an experiment id.\<close>

definition forced_entry :: "forced_variation_map \<Rightarrow> string \<Rightarrow> string \<Rightarrow> string option" where
  "forced_entry fvm uid eid = (case fvm uid of None \<Rightarrow> None | Some m \<Rightarrow> map_of m eid)"

text \<open>The rollout loop stands at a rule for which the user has no valid forced decision and
  whose id the config does not resolve.\<close>

definition stuck_at ::
  "collaborators \<Rightarrow> project_config \<Rightarrow> feature_flag \<Rightarrow> user_context \<Rightarrow> experiment list
     \<Rightarrow> nat \<Rightarrow> bool" where
  "stuck_at E cfg feature ctx rollout_rules index =
     (index < length rollout_rules
      \<and> fst (validated_forced_decision E cfg
                (feature_key feature, Some (experiment_key (rollout_rules ! index))) ctx) = None
      \<and> get_experiment_from_id cfg (experiment_id (rollout_rules ! index)) = None)"

text \<open>The spec's reading of one feature's experiments, "first match wins": an experiment
  id yields a variation when it resolves in config and either a forced decision for the
  flag and the experiment's key, or else the experiment decision, gives one; the decision
  of the feature test is that of the first id of the list that yields a variation.\<close>

definition experiment_variation ::
  "collaborators \<Rightarrow> decision_service \<Rightarrow> project_config \<Rightarrow> feature_flag \<Rightarrow> user_context
     \<Rightarrow> string list option \<Rightarrow> user_profile_tracker option \<Rightarrow> string
     \<Rightarrow> (experiment \<times> variation) option" where
  "experiment_variation E svc cfg feature ctx options tracker eid =
     (case get_experiment_from_id cfg eid of
        None \<Rightarrow> None
      | Some exp \<Rightarrow>
         (case fst (validated_forced_decision E cfg
                      (feature_key feature, Some (experiment_key exp)) ctx) of
            Some v \<Rightarrow> Some (exp, v)
          | None \<Rightarrow>
              map_option (Pair exp)
                (fst (get_variation E (forced_variation_map svc) cfg exp ctx tracker [] options))))"

definition first_experiment_decision ::
  "collaborators \<Rightarrow> decision_service \<Rightarrow> project_config \<Rightarrow> feature_flag \<Rightarrow> user_context
     \<Rightarrow> string list option \<Rightarrow> user_profile_tracker option \<Rightarrow> string list
     \<Rightarrow> decision option" where
  "first_experiment_decision E svc cfg feature ctx options tracker ids =
     (case List.map_filter (experiment_variation E svc cfg feature ctx options tracker) ids of
        [] \<Rightarrow> None
      | (exp, v) # _ \<Rightarrow> Some (Decision (Some exp) (Some v) FEATURE_TEST))"

text \<open>The decision recorded for a feature: that of its first experiment that yields a
  variation, for the profile tracker as it stands when the feature is reached, and the
  decision of the rollout when no experiment yields one.\<close>

definition feature_decision ::
  "collaborators \<Rightarrow> decision_service \<Rightarrow> project_config \<Rightarrow> user_context \<Rightarrow> string list option
     \<Rightarrow> feature_flag \<Rightarrow> decision \<times> string list \<Rightarrow> bool" where
  "feature_decision E svc cfg ctx options feature entry =
     (\<exists>tracker.
        case first_experiment_decision E svc cfg feature ctx options tracker
               (experimentIds feature) of
          Some d \<Rightarrow> fst entry = d
        | None \<Rightarrow> (\<exists>rs. get_variation_for_rollout E cfg feature ctx = Some (fst entry, rs)))"

section \<open>The bucketing id\<close>

text \<open>
  C8, as the code has it. The bucketing id is the value of the reserved attribute when the
  attribute is bound to a string. It is the user id in every other case: with no reasons
  when there are no attributes, when the attribute is missing or when it is bound to
  \<^verbatim>\<open>None\<close>; with the warning as the only reason when the attribute is bound to a value
  that is neither a string nor \<^verbatim>\<open>None\<close>.
\<close>

theorem bucketing_id_from_attribute:
  "get_bucketing_id uid attributes =
     (case (case attributes of None \<Rightarrow> None | Some a \<Rightarrow> a BUCKETING_ID) of
        Some (AStr s) \<Rightarrow> (s, [])
      | Some ANull \<Rightarrow> (uid, [])
      | Some _ \<Rightarrow> (uid, [''Bucketing ID attribute is not a string. Defaulted to user_id.''])
      | None \<Rightarrow> (uid, []))"
  by (simp add: get_bucketing_id_def attributes_get_def split: option.splits attr_value.splits)

text \<open>
  C8 as stated asks for a warning whenever the attribute is present and is not a string.
  With the attribute present and bound to \<^verbatim>\<open>None\<close> the user id comes back with no
  reason at all.
\<close>

theorem bucketing_id_null_attribute_counterexample:
  "[BUCKETING_ID \<mapsto> ANull] BUCKETING_ID = Some ANull
   \<and> get_bucketing_id ''user_1'' (Some [BUCKETING_ID \<mapsto> ANull]) = (''user_1'', [])"
  by (simp add: get_bucketing_id_def attributes_get_def)

section \<open>The forced-variation store\<close>

text \<open>
  C4. With an unknown experiment key, or with a variation key that is empty or unknown for
  the experiment, \<open>set_forced_variation\<close> answers false and the map is the one it was
  given. With no variation key and a known experiment key it answers true; afterwards the
  user has no entry for the experiment, every other entry is as before, and the map itself
  is unchanged when the user had no entry for the experiment.
\<close>

theorem set_forced_variation_failures_and_removal:
  "(get_experiment_from_key cfg ekey = None \<longrightarrow>
      set_forced_variation fvm cfg ekey uid vkey = (False, fvm))
   \<and> (vk = [] \<or> get_variation_from_key cfg ekey vk = None \<longrightarrow>
      set_forced_variation fvm cfg ekey uid (Some vk) = (False, fvm))
   \<and> (get_experiment_from_key cfg ekey = Some exp \<longrightarrow>
        fst (set_forced_variation fvm cfg ekey uid None) = True
        \<and> forced_entry (snd (set_forced_variation fvm cfg ekey uid None)) uid (experiment_id exp)
            = None
        \<and> (\<forall>u e. (u, e) \<noteq> (uid, experiment_id exp) \<longrightarrow>
              forced_entry (snd (set_forced_variation fvm cfg ekey uid None)) u e
                = forced_entry fvm u e)
        \<and> (forced_entry fvm uid (experiment_id exp) = None \<longrightarrow>
              snd (set_forced_variation fvm cfg ekey uid None) = fvm))"
  by (auto simp add: set_forced_variation_def forced_entry_def is_non_empty_string_def Let_def
      AList.delete_conv' map_of_eq_None_iff split: option.splits)

theorem set_forced_variation_failures_and_removal_witness:
  "get_experiment_from_key example_config ''nope'' = None
   \<and> set_forced_variation [''user_1'' \<mapsto> [(''e1'', ''v1'')]] example_config ''nope'' ''user_1''
        (Some ''a'') = (False, [''user_1'' \<mapsto> [(''e1'', ''v1'')]])
   \<and> get_variation_from_key example_config ''exp_1'' ''zzz'' = None
   \<and> set_forced_variation [''user_1'' \<mapsto> [(''e1'', ''v1'')]] example_config ''exp_1'' ''user_1''
        (Some ''zzz'') = (False, [''user_1'' \<mapsto> [(''e1'', ''v1'')]])
   \<and> get_experiment_from_key example_config ''exp_1'' = Some example_exp
   \<and> fst (set_forced_variation [''user_1'' \<mapsto> [(''e1'', ''v1'')]] example_config ''exp_1''
        ''user_1'' None) = True
   \<and> forced_entry (snd (set_forced_variation [''user_1'' \<mapsto> [(''e1'', ''v1'')]] example_config
        ''exp_1'' ''user_1'' None)) ''user_1'' ''e1'' = None
   \<and> forced_entry Map.empty ''user_1'' (experiment_id example_exp) = None
   \<and> snd (set_forced_variation Map.empty example_config ''exp_1'' ''user_1'' None) = Map.empty"
proof -
  let ?fvm = "[''user_1'' \<mapsto> [(''e1'', ''v1'')]]"
  have unknown: "get_experiment_from_key example_config ''nope'' = None"
    by (simp add: example_config_def)
  have novar: "get_variation_from_key example_config ''exp_1'' ''zzz'' = None"
    by (simp add: example_config_def)
  have known: "get_experiment_from_key example_config ''exp_1'' = Some example_exp"
    by (simp add: example_config_def)
  have eid: "experiment_id example_exp = ''e1''"
    by (simp add: example_exp_def example_rule_def)
  have empty: "forced_entry Map.empty ''user_1'' (experiment_id example_exp) = None"
    by (simp add: forced_entry_def)
  note a = set_forced_variation_failures_and_removal
    [of example_config "''nope''" ?fvm "''user_1''" "Some ''a''" "''zzz''" example_exp]
  note b = set_forced_variation_failures_and_removal
    [of example_config "''exp_1''" ?fvm "''user_1''" None "''zzz''" example_exp]
  note c = set_forced_variation_failures_and_removal
    [of example_config "''exp_1''" Map.empty "''user_1''" None "''zzz''" example_exp]
  from a unknown have 1: "set_forced_variation ?fvm example_config ''nope'' ''user_1'' (Some ''a'')
      = (False, ?fvm)" by blast
  from b novar have 2: "set_forced_variation ?fvm example_config ''exp_1'' ''user_1'' (Some ''zzz'')
      = (False, ?fvm)" by blast
  from b known have 3: "fst (set_forced_variation ?fvm example_config ''exp_1'' ''user_1'' None) = True"
    and 4: "forced_entry (snd (set_forced_variation ?fvm example_config ''exp_1'' ''user_1'' None))
        ''user_1'' (experiment_id example_exp) = None" by blast+
  from c known empty
  have 5: "snd (set_forced_variation Map.empty example_config ''exp_1'' ''user_1'' None) = Map.empty"
    by blast
  from unknown novar known empty 1 2 3 4 5 show ?thesis by (simp only: eid simp_thms)
qed

section \<open>Event dispatch\<close>

text \<open>The verbs as the policy sees them, and the decision of the policy that
  \<open>dispatch_event\<close> builds: the method must be one of the allowed, idempotent methods; the
  status must be on the force list, or be 413 or 429 on a response that carries
  \<^verbatim>\<open>Retry-After\<close> while the retry count is not zero.\<close>

lemma upper_verbs: "upper GET = GET" "upper POST = POST"
  by (simp_all add: upper_def GET_def POST_def)

lemma allowed_verbs: "GET \<in> set DEFAULT_ALLOWED_METHODS" "POST \<notin> set DEFAULT_ALLOWED_METHODS"
  by (simp_all add: DEFAULT_ALLOWED_METHODS_def GET_def POST_def)

lemma configured_policy:
  "is_retry (Retry n (1, 10) [500, 502, 503, 504]) method code has_retry_after \<longleftrightarrow>
     upper method \<in> set DEFAULT_ALLOWED_METHODS
     \<and> (code = 500 \<or> code = 502 \<or> code = 503 \<or> code = 504
        \<or> (n \<noteq> 0 \<and> has_retry_after \<and> (code = 413 \<or> code = 429)))"
  by (auto simp add: is_retry_def is_method_retryable_def Retry_def RETRY_AFTER_STATUS_CODES_def
      DEFAULT_ALLOWED_METHODS_def)

text \<open>
  C7, as the code has it. Whatever the transport answers, no \<^verbatim>\<open>RequestException\<close> leaves
  \<open>dispatch_event\<close>: a connection error, a timeout and a response with a status from 400
  to 599 end in one logged line and a normal return. A GET event sends one request with the
  event's params as query parameters and no body; a POST event sends one request with the
  JSON text of the params as body and no query parameters. After a response the retry
  policy of the request asks for another attempt exactly when the request is a GET and the
  status is 500, 502, 503 or 504, or is 413 or 429 on a response that carries
  \<^verbatim>\<open>Retry-After\<close> while the retry count is not zero: a POST is never retried on a
  status, and of the statuses from 400 to 499 only 413 and 429 are, with that header.
\<close>

theorem dispatch_event_failures_and_retry_policy:
  "(\<forall>e. raised (dispatch_event conf H ev) = Some e \<longrightarrow> \<not> is_RequestException e)
   \<and> (\<forall>req e. the_request conf H ev = Some req \<and> send H req = Raises e \<and> is_RequestException e
        \<longrightarrow> raised (dispatch_event conf H ev) = None
            \<and> logged (dispatch_event conf H ev)
                = [''Dispatch event failed. Error: '' @ str_exception H e])
   \<and> (\<forall>req code. the_request conf H ev = Some req \<and> send H req = Response code
          \<and> 400 \<le> code \<and> code < 600
        \<longrightarrow> raised (dispatch_event conf H ev) = None
            \<and> logged (dispatch_event conf H ev)
                = [''Dispatch event failed. Error: '' @ str_exception H (HTTPError code)])
   \<and> (http_verb ev = GET \<longrightarrow>
        (\<exists>req. sent (dispatch_event conf H ev) = [req] \<and> request_method req = GET
           \<and> request_url req = url ev \<and> query_params req = Some (params ev)
           \<and> request_data req = None))
   \<and> (http_verb ev = POST \<longrightarrow>
        (\<exists>req. sent (dispatch_event conf H ev) = [req] \<and> request_method req = POST
           \<and> request_url req = url ev \<and> query_params req = None
           \<and> request_data req = Some (json_dumps H (params ev))))
   \<and> (\<forall>req \<in> set (sent (dispatch_event conf H ev)). \<forall>code has_retry_after.
        is_retry (max_retries req) (request_method req) code has_retry_after
        \<longleftrightarrow> request_method req = GET
            \<and> (code = 500 \<or> code = 502 \<or> code = 503 \<or> code = 504
               \<or> (RETRIES conf \<noteq> 0 \<and> has_retry_after \<and> (code = 413 \<or> code = 429))))"
proof -
  have contained: "\<forall>e. raised (dispatch_event conf H ev) = Some e \<longrightarrow> \<not> is_RequestException e"
    by (simp add: dispatch_event_def Let_def split: option.splits response.splits)
  have connection: "\<forall>req e. the_request conf H ev = Some req \<and> send H req = Raises e
        \<and> is_RequestException e
        \<longrightarrow> raised (dispatch_event conf H ev) = None
            \<and> logged (dispatch_event conf H ev)
                = [''Dispatch event failed. Error: '' @ str_exception H e]"
    by (simp add: dispatch_event_def Let_def)
  have status: "\<forall>req code. the_request conf H ev = Some req \<and> send H req = Response code
          \<and> 400 \<le> code \<and> code < 600
        \<longrightarrow> raised (dispatch_event conf H ev) = None
            \<and> logged (dispatch_event conf H ev)
                = [''Dispatch event failed. Error: '' @ str_exception H (HTTPError code)]"
    by (simp add: dispatch_event_def Let_def raise_for_status_def is_RequestException_def)
  have get: "http_verb ev = GET \<longrightarrow>
        (\<exists>req. sent (dispatch_event conf H ev) = [req] \<and> request_method req = GET
           \<and> request_url req = url ev \<and> query_params req = Some (params ev)
           \<and> request_data req = None)"
    by (simp add: dispatch_event_def the_request_def Let_def split: option.splits response.splits)
  have post: "http_verb ev = POST \<longrightarrow>
        (\<exists>req. sent (dispatch_event conf H ev) = [req] \<and> request_method req = POST
           \<and> request_url req = url ev \<and> query_params req = None
           \<and> request_data req = Some (json_dumps H (params ev)))"
    by (simp add: dispatch_event_def the_request_def Let_def GET_def POST_def
        split: option.splits response.splits)
  have policy: "\<forall>req \<in> set (sent (dispatch_event conf H ev)). \<forall>code has_retry_after.
        is_retry (max_retries req) (request_method req) code has_retry_after
        \<longleftrightarrow> request_method req = GET
            \<and> (code = 500 \<or> code = 502 \<or> code = 503 \<or> code = 504
               \<or> (RETRIES conf \<noteq> 0 \<and> has_retry_after \<and> (code = 413 \<or> code = 429)))"
  proof
    fix req
    assume "req \<in> set (sent (dispatch_event conf H ev))"
    then have req: "the_request conf H ev = Some req"
      by (auto simp add: dispatch_event_def Let_def split: option.splits response.splits if_splits)
    then have verb: "request_method req = GET \<or> request_method req = POST"
      and retries: "max_retries req = Retry (RETRIES conf) (1, 10) [500, 502, 503, 504]"
      by (auto simp add: the_request_def Let_def split: if_splits)
    from verb show "\<forall>code has_retry_after.
        is_retry (max_retries req) (request_method req) code has_retry_after
        \<longleftrightarrow> request_method req = GET
            \<and> (code = 500 \<or> code = 502 \<or> code = 503 \<or> code = 504
               \<or> (RETRIES conf \<noteq> 0 \<and> has_retry_after \<and> (code = 413 \<or> code = 429)))"
    proof
      assume "request_method req = GET"
      then show ?thesis
        by (simp add: retries configured_policy upper_verbs allowed_verbs)
    next
      assume "request_method req = POST"
      moreover have "POST \<noteq> GET" by (simp add: GET_def POST_def)
      ultimately show ?thesis
        by (simp add: retries configured_policy upper_verbs allowed_verbs)
    qed
  qed
  from contained connection status get post policy show ?thesis by (intro conjI)
qed

text \<open>
  C7 as stated has the policy never retry on a response with a status from 400 to 499.
  For the request of a GET event, the policy asks for another attempt after a response
  with status 429 that carries \<^verbatim>\<open>Retry-After\<close>.
\<close>

theorem retry_on_429_with_retry_after_counterexample:
  "sent (dispatch_event \<lparr>RETRIES = 3, REQUEST_TIMEOUT = 10\<rparr> example_http (example_event GET))
     = [\<lparr>request_method = GET, request_url = ''https://logx.example/v1/events'',
         query_params = Some (JObj []), request_data = None, request_headers = None,
         request_timeout = 10,
         max_retries = Retry 3 (1, 10) [500, 502, 503, 504]\<rparr>]
   \<and> is_retry (Retry 3 (1, 10) [500, 502, 503, 504]) GET 429 True"
  by (simp add: dispatch_event_def the_request_def example_event_def example_http_def
      GET_def POST_def is_RequestException_def is_retry_def is_method_retryable_def Retry_def
      RETRY_AFTER_STATUS_CODES_def DEFAULT_ALLOWED_METHODS_def upper_def)

theorem dispatch_event_failures_and_retry_policy_witness:
  "http_verb (example_event POST) = POST
   \<and> the_request \<lparr>RETRIES = 3, REQUEST_TIMEOUT = 10\<rparr> example_http (example_event POST)
       = Some \<lparr>request_method = POST, request_url = ''https://logx.example/v1/events'',
               query_params = None, request_data = Some ''{}'',
               request_headers = Some [(''Content-Type'', ''application/json'')],
               request_timeout = 10,
               max_retries = Retry 3 (1, 10) [500, 502, 503, 504]\<rparr>
   \<and> raised (dispatch_event \<lparr>RETRIES = 3, REQUEST_TIMEOUT = 10\<rparr> example_http (example_event POST))
       = None
   \<and> logged (dispatch_event \<lparr>RETRIES = 3, REQUEST_TIMEOUT = 10\<rparr> example_http (example_event POST))
       = [''Dispatch event failed. Error: failed'']
   \<and> http_verb (example_event GET) = GET
   \<and> raised (dispatch_event \<lparr>RETRIES = 3, REQUEST_TIMEOUT = 10\<rparr> example_http (example_event GET))
       = None
   \<and> logged (dispatch_event \<lparr>RETRIES = 3, REQUEST_TIMEOUT = 10\<rparr> example_http (example_event GET))
       = [''Dispatch event failed. Error: failed'']
   \<and> is_retry (Retry 3 (1, 10) [500, 502, 503, 504]) GET 503 False
   \<and> is_retry (Retry 3 (1, 10) [500, 502, 503, 504]) GET 429 True
   \<and> \<not> is_retry (Retry 3 (1, 10) [500, 502, 503, 504]) GET 404 True
   \<and> \<not> is_retry (Retry 3 (1, 10) [500, 502, 503, 504]) POST 500 True"
proof -
  let ?conf = "\<lparr>RETRIES = 3, REQUEST_TIMEOUT = 10\<rparr>"
  let ?req = "\<lparr>request_method = POST, request_url = ''https://logx.example/v1/events'',
               query_params = None, request_data = Some ''{}'',
               request_headers = Some [(''Content-Type'', ''application/json'')],
               request_timeout = 10,
               max_retries = Retry 3 (1, 10) [500, 502, 503, 504]\<rparr>"
  let ?get = "\<lparr>request_method = GET, request_url = ''https://logx.example/v1/events'',
               query_params = Some (JObj []), request_data = None,
               request_headers = None, request_timeout = 10,
               max_retries = Retry 3 (1, 10) [500, 502, 503, 504]\<rparr>"
  have verb: "http_verb (example_event POST) = POST" "http_verb (example_event GET) = GET"
    by (simp_all add: example_event_def)
  have req: "the_request ?conf example_http (example_event POST) = Some ?req"
    by (simp add: the_request_def example_event_def example_http_def GET_def POST_def)
  have answer: "send example_http ?req = Response 404"
    by (simp add: example_http_def)
  have getreq: "the_request ?conf example_http (example_event GET) = Some ?get"
    by (simp add: the_request_def example_event_def example_http_def GET_def POST_def)
  have getanswer: "send example_http ?get = Raises ConnectionError"
    by (simp add: example_http_def GET_def POST_def)
  have conn: "is_RequestException ConnectionError"
    by (simp add: is_RequestException_def)
  have str: "str_exception example_http (HTTPError 404) = ''failed''"
    "str_exception example_http ConnectionError = ''failed''"
    by (simp_all add: example_http_def)
  note p = dispatch_event_failures_and_retry_policy [of ?conf example_http "example_event POST"]
  note g = dispatch_event_failures_and_retry_policy [of ?conf example_http "example_event GET"]
  from p req answer
  have 1: "raised (dispatch_event ?conf example_http (example_event POST)) = None
     \<and> logged (dispatch_event ?conf example_http (example_event POST))
         = [''Dispatch event failed. Error: '' @ str_exception example_http (HTTPError 404)]"
    by (elim conjE) (drule spec [of _ ?req], drule spec [of _ 404], simp)
  from g getreq getanswer conn
  have 2: "raised (dispatch_event ?conf example_http (example_event GET)) = None
     \<and> logged (dispatch_event ?conf example_http (example_event GET))
         = [''Dispatch event failed. Error: '' @ str_exception example_http ConnectionError]"
    by (elim conjE) (drule spec [of _ ?get], drule spec [of _ ConnectionError], simp)
  have sent_get: "sent (dispatch_event ?conf example_http (example_event GET)) = [?get]"
    by (simp add: dispatch_event_def getreq getanswer is_RequestException_def)
  have sent_post: "sent (dispatch_event ?conf example_http (example_event POST)) = [?req]"
    by (simp add: dispatch_event_def req answer raise_for_status_def is_RequestException_def)
  note policy_get = g [THEN conjunct2, THEN conjunct2, THEN conjunct2, THEN conjunct2,
    THEN conjunct2, unfolded sent_get]
  note policy_post = p [THEN conjunct2, THEN conjunct2, THEN conjunct2, THEN conjunct2,
    THEN conjunct2, unfolded sent_post]
  have 3: "is_retry (Retry 3 (1, 10) [500, 502, 503, 504]) GET 503 False"
    "is_retry (Retry 3 (1, 10) [500, 502, 503, 504]) GET 429 True"
    "\<not> is_retry (Retry 3 (1, 10) [500, 502, 503, 504]) GET 404 True"
    using policy_get by simp_all
  have "POST \<noteq> GET" by (simp add: GET_def POST_def)
  with policy_post have 4: "\<not> is_retry (Retry 3 (1, 10) [500, 502, 503, 504]) POST 500 True"
    by simp
  from verb req 1 2 3 4 show ?thesis by (simp add: str)
qed

section \<open>The rollout loop\<close>

text \<open>A pass that returns does so with the rule it stands at and a variation.\<close>

lemma rollout_step_Inl:
  "rollout_step E cfg feature ctx rules i rs = Inl (d, rs')
    \<Longrightarrow> \<exists>v. d = Decision (Some (rules ! i)) (Some v) ROLLOUT"
  by (auto simp add: rollout_step_def Let_def split: prod.splits option.splits if_splits)

text \<open>A pass at a rule that resolves moves the index forward and not past the end.\<close>

lemma rollout_step_advances:
  "i < length rules \<Longrightarrow> get_experiment_from_id cfg (experiment_id (rules ! i)) \<noteq> None
    \<Longrightarrow> rollout_step E cfg feature ctx rules i rs = Inr (j, rs')
    \<Longrightarrow> i < j \<and> j \<le> length rules"
  by (auto simp add: rollout_step_def Let_def split: prod.splits option.splits if_splits)

text \<open>A pass reads the rule list at its own index and for its length only.\<close>

lemma rollout_step_same_rule:
  assumes "length rules' = length rules" and "rules' ! i = rules ! i"
  shows "rollout_step E cfg feature ctx rules' i rs = rollout_step E cfg feature ctx rules i rs"
  unfolding rollout_step_def assms by (rule refl)

text \<open>A pass at a rule that does not resolve leaves the index where it is.\<close>

lemma stuck_at_step:
  "stuck_at E cfg feature ctx rules i
    \<Longrightarrow> \<exists>rs'. rollout_step E cfg feature ctx rules i rs = Inr (i, rs')"
  by (auto simp add: stuck_at_def rollout_step_def Let_def split: prod.splits option.splits)

lemma rollout_step_same_index:
  "i < length rules \<Longrightarrow> rollout_step E cfg feature ctx rules i rs = Inr (i, rs')
    \<Longrightarrow> stuck_at E cfg feature ctx rules i"
  by (auto simp add: stuck_at_def rollout_step_def Let_def
      split: prod.splits option.splits if_splits)

text \<open>A run of the loop that returns was never at such a rule: by induction on the
  unfolding of the loop.\<close>

lemma rollout_loop_not_stuck:
  assumes "rollout_loop E cfg feature ctx rules i rs = Some y"
  shows "\<not> stuck_at E cfg feature ctx rules i"
proof (rule rollout_loop.raw_induct
    [where P = "\<lambda>E cfg feature ctx rules i rs y. \<not> stuck_at E cfg feature ctx rules i",
     OF _ assms])
  fix loop E cfg feature ctx rules i rs and y :: "decision \<times> string list"
  assume IH: "\<And>E cfg feature ctx rules i rs y. loop E cfg feature ctx rules i rs = Some y
                 \<Longrightarrow> \<not> stuck_at E cfg feature ctx rules i"
    and eq: "(if i < length rules
              then case rollout_step E cfg feature ctx rules i rs of
                     Inl result \<Rightarrow> Some result
                   | Inr next_pass \<Rightarrow>
                       loop E cfg feature ctx rules (fst next_pass) (snd next_pass)
              else Some (Decision None None ROLLOUT, rs)) = Some y"
  show "\<not> stuck_at E cfg feature ctx rules i"
  proof
    assume s: "stuck_at E cfg feature ctx rules i"
    then obtain rs' where st: "rollout_step E cfg feature ctx rules i rs = Inr (i, rs')"
      using stuck_at_step by blast
    from s have "i < length rules" by (simp add: stuck_at_def)
    with st eq have "loop E cfg feature ctx rules i rs' = Some y" by simp
    then have "\<not> stuck_at E cfg feature ctx rules i" by (rule IH)
    with s show False by contradiction
  qed
qed

lemma rollout_loop_stuck:
  "stuck_at E cfg feature ctx rules i \<Longrightarrow> rollout_loop E cfg feature ctx rules i rs = None"
  using rollout_loop_not_stuck [of E cfg feature ctx rules i rs]
  by (cases "rollout_loop E cfg feature ctx rules i rs") auto

text \<open>What a returning run returns.\<close>

lemma rollout_loop_decision:
  assumes "rollout_loop E cfg feature ctx rules i rs = Some y"
  shows "source (fst y) = Some ROLLOUT
         \<and> (experiment (fst y) = None \<longleftrightarrow> variation (fst y) = None)"
proof (rule rollout_loop.raw_induct
    [where P = "\<lambda>E cfg feature ctx rules i rs y.
       source (fst y) = Some ROLLOUT \<and> (experiment (fst y) = None \<longleftrightarrow> variation (fst y) = None)",
     OF _ assms])
  fix loop E cfg feature ctx rules i rs and y :: "decision \<times> string list"
  assume IH: "\<And>E cfg feature ctx rules i rs y. loop E cfg feature ctx rules i rs = Some y
                 \<Longrightarrow> source (fst y) = Some ROLLOUT
                     \<and> (experiment (fst y) = None \<longleftrightarrow> variation (fst y) = None)"
    and eq: "(if i < length rules
              then case rollout_step E cfg feature ctx rules i rs of
                     Inl result \<Rightarrow> Some result
                   | Inr next_pass \<Rightarrow>
                       loop E cfg feature ctx rules (fst next_pass) (snd next_pass)
              else Some (Decision None None ROLLOUT, rs)) = Some y"
  show "source (fst y) = Some ROLLOUT \<and> (experiment (fst y) = None \<longleftrightarrow> variation (fst y) = None)"
  proof (cases "i < length rules")
    case False
    with eq show ?thesis by (auto simp add: Decision_def)
  next
    case True
    show ?thesis
    proof (cases "rollout_step E cfg feature ctx rules i rs")
      case (Inl r)
      with True eq have "rollout_step E cfg feature ctx rules i rs = Inl (fst y, snd y)" by auto
      then show ?thesis using rollout_step_Inl by (fastforce simp add: Decision_def)
    next
      case (Inr n)
      with True eq have "loop E cfg feature ctx rules (fst n) (snd n) = Some y" by simp
      then show ?thesis by (rule IH)
    qed
  qed
qed

text \<open>When every rule resolves the loop returns: the distance of the index to the end of
  the list shrinks with every pass.\<close>

lemma rollout_loop_returns:
  assumes "\<forall>r \<in> set rules. get_experiment_from_id cfg (experiment_id r) \<noteq> None"
  shows "\<exists>y. rollout_loop E cfg feature ctx rules i rs = Some y"
proof (induction "length rules - i" arbitrary: i rs rule: less_induct)
  case less
  show ?case
  proof (cases "i < length rules")
    case False
    then show ?thesis by (subst rollout_loop.simps) simp
  next
    case True
    show ?thesis
    proof (cases "rollout_step E cfg feature ctx rules i rs")
      case (Inl r)
      with True show ?thesis by (subst rollout_loop.simps) simp
    next
      case (Inr n)
      from True assms have "get_experiment_from_id cfg (experiment_id (rules ! i)) \<noteq> None"
        by simp
      with True Inr have "i < fst n \<and> fst n \<le> length rules"
        using rollout_step_advances [of i rules cfg E feature ctx rs "fst n" "snd n"] by simp
      then have "length rules - fst n < length rules - i" using True by arith
      then have "\<exists>y. rollout_loop E cfg feature ctx rules (fst n) (snd n) = Some y"
        by (rule less)
      with True Inr show ?thesis by (subst rollout_loop.simps) simp
    qed
  qed
qed

text \<open>From the last index the loop reads the last rule and the length of the list, and
  nothing else of the list.\<close>

lemma rollout_loop_last_rule:
  assumes len: "length rules' = length rules" and ne: "rules \<noteq> []"
    and same: "rules' ! (length rules - 1) = rules ! (length rules - 1)"
  shows "rollout_loop E cfg feature ctx rules' (length rules - 1) rs
         = rollout_loop E cfg feature ctx rules (length rules - 1) rs"
proof -
  let ?i = "length rules - 1"
  from ne have i: "?i < length rules" by (cases rules) simp_all
  from len same
  have step: "rollout_step E cfg feature ctx rules' ?i rs = rollout_step E cfg feature ctx rules ?i rs"
    by (rule rollout_step_same_rule)
  show ?thesis
  proof (cases "rollout_step E cfg feature ctx rules ?i rs")
    case (Inl r)
    with i len step show ?thesis
      by (subst rollout_loop.simps, subst (2) rollout_loop.simps) simp
  next
    case (Inr n)
    show ?thesis
    proof (cases "fst n = ?i")
      case True
      with Inr have "rollout_step E cfg feature ctx rules ?i rs = Inr (?i, snd n)"
        by (metis prod.collapse)
      with i have s: "stuck_at E cfg feature ctx rules ?i" by (rule rollout_step_same_index)
      with len same have s': "stuck_at E cfg feature ctx rules' ?i"
        by (simp add: stuck_at_def)
      from s s' show ?thesis by (simp add: rollout_loop_stuck)
    next
      case False
      have "rollout_step E cfg feature ctx rules ?i rs = Inr (fst n, snd n)"
        using Inr by simp
      with False have past: "fst n = length rules"
        using i by (auto simp add: rollout_step_def Let_def
            split: prod.splits option.splits if_splits)
      have a: "rollout_loop E cfg feature ctx rules (fst n) (snd n)
                 = Some (Decision None None ROLLOUT, snd n)"
        using past by (subst rollout_loop.simps) simp
      have b: "rollout_loop E cfg feature ctx rules' (fst n) (snd n)
                 = Some (Decision None None ROLLOUT, snd n)"
        using past len by (subst rollout_loop.simps) simp
      have "rollout_loop E cfg feature ctx rules ?i rs
              = rollout_loop E cfg feature ctx rules (fst n) (snd n)"
        using i Inr by (subst rollout_loop.simps) simp
      moreover have "rollout_loop E cfg feature ctx rules' ?i rs
              = rollout_loop E cfg feature ctx rules' (fst n) (snd n)"
        using i len step Inr by (subst rollout_loop.simps) simp
      ultimately show ?thesis using a b by simp
    qed
  qed
qed

text \<open>The example rollout: a user fails bucketing at the first rule, is sent to the last
  rule and is bucketed there.\<close>

lemma example_step_first_rule:
  "\<exists>rs'. rollout_step example_collaborators example_config example_feature (example_user uid)
           example_rules 0 rs = Inr (2, rs')"
  by (simp add: rollout_step_def validated_forced_decision_def get_forced_decision_def
      example_collaborators_def example_config_def example_feature_def example_user_def
      example_rules_def example_rule_def get_bucketing_id_def attributes_get_def Let_def)

lemma example_step_last_rule:
  "length rules = 3 \<Longrightarrow> rules ! 2 = example_rule ''r3'' ''rule_3'' \<Longrightarrow>
   \<exists>rs'. rollout_step example_collaborators example_config example_feature (example_user uid)
           rules 2 rs
         = Inl (Decision (Some (example_rule ''r3'' ''rule_3'')) (Some example_var_a) ROLLOUT, rs')"
  by (simp add: rollout_step_def validated_forced_decision_def get_forced_decision_def
      example_collaborators_def example_config_def example_feature_def example_user_def
      example_rule_def get_bucketing_id_def attributes_get_def Let_def)

lemma example_loop_last_rule:
  assumes "length rules = 3" and "rules ! 2 = example_rule ''r3'' ''rule_3''"
  shows "map_option fst (rollout_loop example_collaborators example_config example_feature
             (example_user uid) rules 2 rs)
         = Some (Decision (Some (example_rule ''r3'' ''rule_3'')) (Some example_var_a) ROLLOUT)"
proof -
  from assms obtain rs' where
    "rollout_step example_collaborators example_config example_feature (example_user uid)
       rules 2 rs
     = Inl (Decision (Some (example_rule ''r3'' ''rule_3'')) (Some example_var_a) ROLLOUT, rs')"
    using example_step_last_rule by blast
  with assms show ?thesis by (subst rollout_loop.simps) simp
qed

lemma example_rollout:
  "map_option fst (get_variation_for_rollout example_collaborators example_config example_feature
       (example_user uid))
   = Some (Decision (Some (example_rule ''r3'' ''rule_3'')) (Some example_var_a) ROLLOUT)"
proof -
  obtain rs' where
    "rollout_step example_collaborators example_config example_feature (example_user uid)
       example_rules 0 [] = Inr (2, rs')"
    using example_step_first_rule by blast
  then have "rollout_loop example_collaborators example_config example_feature (example_user uid)
       example_rules 0 []
     = rollout_loop example_collaborators example_config example_feature (example_user uid)
       example_rules 2 rs'"
    by (subst rollout_loop.simps) (simp add: example_rules_def)
  moreover have "map_option fst (rollout_loop example_collaborators example_config example_feature
       (example_user uid) example_rules 2 rs')
     = Some (Decision (Some (example_rule ''r3'' ''rule_3'')) (Some example_var_a) ROLLOUT)"
    by (rule example_loop_last_rule) (simp_all add: example_rules_def)
  ultimately show ?thesis
    by (simp add: get_variation_for_rollout_def example_feature_def example_config_def
        example_rules_def)
qed

text \<open>
  C3. At a rule for which the user has no valid forced decision and whose id the config
  does not resolve, a pass through the loop body hands the same index to the next pass, and
  the loop never returns: the rule is not passed over, and no decision comes back.
\<close>

theorem rollout_loop_unresolved_rule_never_returns:
  assumes "index < length rollout_rules"
    and "fst (validated_forced_decision E cfg
                (feature_key feature, Some (experiment_key (rollout_rules ! index))) ctx) = None"
    and "get_experiment_from_id cfg (experiment_id (rollout_rules ! index)) = None"
  shows "(\<exists>rs'. rollout_step E cfg feature ctx rollout_rules index decide_reasons
                  = Inr (index, rs'))
         \<and> rollout_loop E cfg feature ctx rollout_rules index decide_reasons = None"
proof -
  from assms have "stuck_at E cfg feature ctx rollout_rules index"
    by (simp add: stuck_at_def)
  then show ?thesis
    using stuck_at_step [of E cfg feature ctx rollout_rules index decide_reasons]
      rollout_loop_stuck [of E cfg feature ctx rollout_rules index decide_reasons]
    by blast
qed

theorem rollout_loop_unresolved_rule_never_returns_witness:
  "(0::nat) < length [example_rule ''rx'' ''rule_x'']
   \<and> fst (validated_forced_decision example_collaborators example_config
           (feature_key example_feature_x,
            Some (experiment_key ([example_rule ''rx'' ''rule_x''] ! 0))) (example_user ''user_1''))
       = None
   \<and> get_experiment_from_id example_config
        (experiment_id ([example_rule ''rx'' ''rule_x''] ! 0)) = None
   \<and> get_variation_for_rollout example_collaborators example_config example_feature_x
        (example_user ''user_1'') = None"
proof -
  let ?rules = "[example_rule ''rx'' ''rule_x'']"
  have a: "(0::nat) < length ?rules" by simp
  have b: "fst (validated_forced_decision example_collaborators example_config
           (feature_key example_feature_x, Some (experiment_key (?rules ! 0)))
           (example_user ''user_1'')) = None"
    by (simp add: validated_forced_decision_def get_forced_decision_def example_user_def)
  have c: "get_experiment_from_id example_config (experiment_id (?rules ! 0)) = None"
    by (simp add: example_config_def example_rule_def)
  have "rollout_loop example_collaborators example_config example_feature_x
          (example_user ''user_1'') ?rules 0 [] = None"
    using rollout_loop_unresolved_rule_never_returns [OF a b c, where decide_reasons = "[]"]
    by blast
  then have "get_variation_for_rollout example_collaborators example_config example_feature_x
        (example_user ''user_1'') = None"
    by (simp add: get_variation_for_rollout_def example_feature_x_def example_config_def)
  with a b c show ?thesis by blast
qed

text \<open>
  C9. A decision that \<open>get_variation_for_rollout\<close> returns has the source \<open>ROLLOUT\<close>,
  and its experiment and its variation are both given or both missing.
\<close>

theorem rollout_decision_shape:
  assumes "get_variation_for_rollout E cfg feature ctx = Some (d, rs)"
  shows "source d = Some ROLLOUT
         \<and> ((experiment d \<noteq> None \<and> variation d \<noteq> None)
            \<or> (experiment d = None \<and> variation d = None))"
proof -
  have terminal: "source (Decision None None ROLLOUT) = Some ROLLOUT
      \<and> experiment (Decision None None ROLLOUT) = None
      \<and> variation (Decision None None ROLLOUT) = None"
    by (simp add: Decision_def)
  have "d = Decision None None ROLLOUT
        \<or> (\<exists>rules. rollout_loop E cfg feature ctx rules 0 [] = Some (d, rs))"
    using assms
    by (auto simp add: get_variation_for_rollout_def Let_def split: option.splits if_splits)
  then show ?thesis
  proof
    assume "d = Decision None None ROLLOUT"
    with terminal show ?thesis by simp
  next
    assume "\<exists>rules. rollout_loop E cfg feature ctx rules 0 [] = Some (d, rs)"
    then obtain rules where "rollout_loop E cfg feature ctx rules 0 [] = Some (d, rs)" ..
    then have "source (fst (d, rs)) = Some ROLLOUT
        \<and> (experiment (fst (d, rs)) = None \<longleftrightarrow> variation (fst (d, rs)) = None)"
      by (rule rollout_loop_decision)
    then show ?thesis by auto
  qed
qed

theorem rollout_decision_shape_witness:
  "map_option fst (get_variation_for_rollout example_collaborators example_config example_feature
       (example_user ''user_1''))
     = Some (Decision (Some (example_rule ''r3'' ''rule_3'')) (Some example_var_a) ROLLOUT)
   \<and> source (Decision (Some (example_rule ''r3'' ''rule_3'')) (Some example_var_a) ROLLOUT)
       = Some ROLLOUT
   \<and> experiment (Decision (Some (example_rule ''r3'' ''rule_3'')) (Some example_var_a) ROLLOUT)
       \<noteq> None
   \<and> variation (Decision (Some (example_rule ''r3'' ''rule_3'')) (Some example_var_a) ROLLOUT)
       \<noteq> None"
proof -
  let ?d = "Decision (Some (example_rule ''r3'' ''rule_3'')) (Some example_var_a) ROLLOUT"
  have run: "map_option fst (get_variation_for_rollout example_collaborators example_config
       example_feature (example_user ''user_1'')) = Some ?d"
    by (rule example_rollout)
  then obtain rs where "get_variation_for_rollout example_collaborators example_config
       example_feature (example_user ''user_1'') = Some (?d, rs)"
    by auto
  then have "source ?d = Some ROLLOUT
      \<and> ((experiment ?d \<noteq> None \<and> variation ?d \<noteq> None)
         \<or> (experiment ?d = None \<and> variation ?d = None))"
    by (rule rollout_decision_shape)
  with run show ?thesis by (simp add: Decision_def)
qed

text \<open>
  C2. At a rule that is not the last one, that resolves in config and for which the user
  has no valid forced decision: when the user meets the rule's audience conditions and the
  bucketer finds no variation, the pass hands the index of the last rule to the next pass,
  and the loop goes on from there. The rules in between are not read: the run is the same
  for every rule list of the same length with this rule and the same last rule.
\<close>

theorem rollout_failed_bucketing_skips_to_last_rule:
  assumes "index < length rollout_rules - 1"
    and "get_experiment_from_id cfg (experiment_id (rollout_rules ! index)) = Some rollout_rule"
    and "fst (validated_forced_decision E cfg
                (feature_key feature, Some (experiment_key (rollout_rules ! index))) ctx) = None"
    and "fst (does_user_meet_audience_conditions E cfg (get_audience_conditions_or_ids rollout_rule)
                RolloutRuleAudienceEvaluationLogs (string_of_nat (index + 1)) ctx)"
    and "fst (bucket E cfg rollout_rule (user_id ctx)
                (fst (get_bucketing_id (user_id ctx) (user_attributes ctx)))) = None"
  shows "(\<exists>rs'. rollout_step E cfg feature ctx rollout_rules index decide_reasons
                   = Inr (length rollout_rules - 1, rs')
                \<and> rollout_loop E cfg feature ctx rollout_rules index decide_reasons
                   = rollout_loop E cfg feature ctx rollout_rules (length rollout_rules - 1) rs')
         \<and> (\<forall>rules'. length rules' = length rollout_rules
               \<and> rules' ! index = rollout_rules ! index
               \<and> rules' ! (length rollout_rules - 1) = rollout_rules ! (length rollout_rules - 1)
               \<longrightarrow> rollout_loop E cfg feature ctx rules' index decide_reasons
                   = rollout_loop E cfg feature ctx rollout_rules index decide_reasons)"
proof -
  let ?last = "length rollout_rules - 1"
  from assms(1) have inside: "index < length rollout_rules" and ne: "rollout_rules \<noteq> []"
    by auto
  from assms(1) have not_last: "index \<noteq> ?last" by simp
  obtain fr where forced: "validated_forced_decision E cfg
      (feature_key feature, Some (experiment_key (rollout_rules ! index))) ctx = (None, fr)"
    using assms(3) by (metis prod.collapse)
  obtain bid br where bid: "get_bucketing_id (user_id ctx) (user_attributes ctx) = (bid, br)"
    by (metis prod.collapse)
  obtain ar where audience: "does_user_meet_audience_conditions E cfg
      (get_audience_conditions_or_ids rollout_rule) RolloutRuleAudienceEvaluationLogs
      (string_of_nat (index + 1)) ctx = (True, ar)"
    using assms(4) by (metis prod.collapse)
  obtain br' where bucketed: "bucket E cfg rollout_rule (user_id ctx) bid = (None, br')"
    using assms(5) bid by (metis fst_conv prod.collapse)
  have "\<exists>rs'. rollout_step E cfg feature ctx rollout_rules index decide_reasons
                 = Inr (?last, rs')"
    using not_last
    by (simp add: rollout_step_def Let_def forced bid audience [simplified] bucketed assms(2))
  then obtain rs' where
    step: "rollout_step E cfg feature ctx rollout_rules index decide_reasons = Inr (?last, rs')"
    ..
  from inside step
  have jump: "rollout_loop E cfg feature ctx rollout_rules index decide_reasons
              = rollout_loop E cfg feature ctx rollout_rules ?last rs'"
    by (subst rollout_loop.simps) simp
  have "rollout_loop E cfg feature ctx rules' index decide_reasons
          = rollout_loop E cfg feature ctx rollout_rules index decide_reasons"
    if len: "length rules' = length rollout_rules"
      and here: "rules' ! index = rollout_rules ! index"
      and last: "rules' ! ?last = rollout_rules ! ?last" for rules'
  proof -
    from len here
    have "rollout_step E cfg feature ctx rules' index decide_reasons = Inr (?last, rs')"
      using step rollout_step_same_rule [of rules' rollout_rules index E cfg feature ctx decide_reasons]
      by simp
    with inside len
    have "rollout_loop E cfg feature ctx rules' index decide_reasons
          = rollout_loop E cfg feature ctx rules' ?last rs'"
      by (subst rollout_loop.simps) simp
    also have "\<dots> = rollout_loop E cfg feature ctx rollout_rules ?last rs'"
      using len ne last by (rule rollout_loop_last_rule)
    finally show ?thesis using jump by simp
  qed
  with step jump show ?thesis by blast
qed

theorem rollout_failed_bucketing_skips_to_last_rule_witness:
  "(0::nat) < length example_rules - 1
   \<and> get_experiment_from_id example_config (experiment_id (example_rules ! 0))
       = Some (example_rule ''r1'' ''rule_1'')
   \<and> fst (validated_forced_decision example_collaborators example_config
            (feature_key example_feature, Some (experiment_key (example_rules ! 0)))
            (example_user ''user_1'')) = None
   \<and> fst (does_user_meet_audience_conditions example_collaborators example_config
            (get_audience_conditions_or_ids (example_rule ''r1'' ''rule_1''))
            RolloutRuleAudienceEvaluationLogs (string_of_nat (0 + 1)) (example_user ''user_1''))
   \<and> fst (bucket example_collaborators example_config (example_rule ''r1'' ''rule_1'')
            (user_id (example_user ''user_1''))
            (fst (get_bucketing_id (user_id (example_user ''user_1''))
                    (user_attributes (example_user ''user_1''))))) = None
   \<and> map_option fst (rollout_loop example_collaborators example_config example_feature
         (example_user ''user_1'')
         [example_rule ''r1'' ''rule_1'', example_rule ''rx'' ''rule_x'',
          example_rule ''r3'' ''rule_3''] 0 [])
       = Some (Decision (Some (example_rule ''r3'' ''rule_3'')) (Some example_var_a) ROLLOUT)"
proof -
  let ?E = example_collaborators and ?cfg = example_config and ?u = "example_user ''user_1''"
  let ?rules' = "[example_rule ''r1'' ''rule_1'', example_rule ''rx'' ''rule_x'',
                  example_rule ''r3'' ''rule_3'']"
  have a: "(0::nat) < length example_rules - 1" by (simp add: example_rules_def)
  have b: "get_experiment_from_id ?cfg (experiment_id (example_rules ! 0))
             = Some (example_rule ''r1'' ''rule_1'')"
    by (simp add: example_rules_def example_config_def example_rule_def)
  have c: "fst (validated_forced_decision ?E ?cfg
            (feature_key example_feature, Some (experiment_key (example_rules ! 0))) ?u) = None"
    by (simp add: validated_forced_decision_def get_forced_decision_def example_user_def)
  have d: "fst (does_user_meet_audience_conditions ?E ?cfg
            (get_audience_conditions_or_ids (example_rule ''r1'' ''rule_1''))
            RolloutRuleAudienceEvaluationLogs (string_of_nat (0 + 1)) ?u)"
    by (simp add: example_collaborators_def)
  have e: "fst (bucket ?E ?cfg (example_rule ''r1'' ''rule_1'') (user_id ?u)
            (fst (get_bucketing_id (user_id ?u) (user_attributes ?u)))) = None"
    by (simp add: example_collaborators_def example_rule_def)
  note skip = rollout_failed_bucketing_skips_to_last_rule
    [OF a b c d e, where decide_reasons = "[]"]
  have same: "length ?rules' = length example_rules \<and> ?rules' ! 0 = example_rules ! 0
      \<and> ?rules' ! (length example_rules - 1) = example_rules ! (length example_rules - 1)"
    by (simp add: example_rules_def)
  from skip same
  have "rollout_loop ?E ?cfg example_feature ?u ?rules' 0 []
        = rollout_loop ?E ?cfg example_feature ?u example_rules 0 []"
    by blast
  moreover from skip obtain rs' where
    "rollout_loop ?E ?cfg example_feature ?u example_rules 0 []
     = rollout_loop ?E ?cfg example_feature ?u example_rules (length example_rules - 1) rs'"
    by blast
  moreover have "length example_rules - 1 = 2"
    by (simp add: example_rules_def)
  moreover have "map_option fst (rollout_loop ?E ?cfg example_feature ?u example_rules 2 rs')
      = Some (Decision (Some (example_rule ''r3'' ''rule_3'')) (Some example_var_a) ROLLOUT)"
    by (rule example_loop_last_rule) (simp_all add: example_rules_def)
  ultimately show ?thesis using a b c d e by simp
qed

section \<open>The experiment decision\<close>

text \<open>What each layer of \<open>get_variation\<close> reads: the store entry of the user for the id
  of the experiment that config knows under the experiment's key, resolved by id; the key
  the experiment's whitelist holds for the user, resolved by key; the id the profile of the
  tracker holds for the experiment's id, when it is not empty, resolved by id; the
  bucketing-id attribute when it is a string.\<close>

lemma get_forced_variation_reads:
  "fst (get_forced_variation fvm cfg ekey uid) =
     (case get_experiment_from_key cfg ekey of
        None \<Rightarrow> None
      | Some e \<Rightarrow>
         (case forced_entry fvm uid (experiment_id e) of
            None \<Rightarrow> None
          | Some vid \<Rightarrow> get_variation_from_id cfg ekey vid))"
  by (auto simp add: get_forced_variation_def forced_entry_def Let_def split: option.splits)

lemma get_whitelisted_variation_reads:
  "fst (get_whitelisted_variation cfg exp uid) =
     (case forcedVariations exp uid of
        None \<Rightarrow> None
      | Some key \<Rightarrow> get_variation_from_key cfg (experiment_key exp) key)"
  by (simp add: get_whitelisted_variation_def Let_def split: option.splits)

lemma get_stored_variation_reads:
  "get_stored_variation cfg exp (get_user_profile t) =
     (case experiment_bucket_map (tracker_user_profile t) (experiment_id exp) of
        None \<Rightarrow> None
      | Some vid \<Rightarrow>
          if vid = [] then None else get_variation_from_id cfg (experiment_key exp) vid)"
  by (simp add: get_stored_variation_def get_variation_for_experiment_def get_user_profile_def
      split: option.splits)

lemma ignore_user_profile_reads:
  "ignore_user_profile options =
     (case options of None \<Rightarrow> False | Some os \<Rightarrow> IGNORE_USER_PROFILE_SERVICE \<in> set os)"
  by (auto simp add: ignore_user_profile_def split: option.splits)

lemma get_bucketing_id_reads:
  "fst (get_bucketing_id uid attributes) =
     (case attributes of
        None \<Rightarrow> uid
      | Some a \<Rightarrow> (case a BUCKETING_ID of Some (AStr s) \<Rightarrow> s | _ \<Rightarrow> uid))"
  by (simp add: get_bucketing_id_def attributes_get_def split: option.splits attr_value.splits)

text \<open>
  C1. For a running experiment (one whose status is \<^verbatim>\<open>Running\<close>) the variation that \<open>get_variation\<close> returns is found
  layer by layer, and the first layer that yields a variation gives the result. First the
  forced-variation store: the entry of the user for the experiment, when its variation id
  resolves in config. Then the whitelist of the experiment: the variation key it holds for
  the user, when the key resolves. Then the profile, when a tracker is given and the
  options do not ask to ignore it: the variation id stored for the experiment, when it is
  not empty and resolves. Then the audience evaluation, and for a user who meets the
  conditions the bucketer, called with the bucketing id. In particular a store entry that
  resolves is returned whatever the whitelist, the profile and the audience evaluation say.
\<close>

theorem get_variation_precedence:
  "status exp = ''Running'' \<longrightarrow>
     fst (get_variation E fvm cfg exp ctx tracker reasons options) =
       (case (case get_experiment_from_key cfg (experiment_key exp) of
                None \<Rightarrow> None
              | Some e \<Rightarrow>
                 (case forced_entry fvm (user_id ctx) (experiment_id e) of
                    None \<Rightarrow> None
                  | Some vid \<Rightarrow> get_variation_from_id cfg (experiment_key exp) vid)) of
          Some v \<Rightarrow> Some v
        | None \<Rightarrow>
       (case (case forcedVariations exp (user_id ctx) of
                None \<Rightarrow> None
              | Some key \<Rightarrow> get_variation_from_key cfg (experiment_key exp) key) of
          Some v \<Rightarrow> Some v
        | None \<Rightarrow>
       (case (case tracker of
                None \<Rightarrow> None
              | Some t \<Rightarrow>
                  if (case options of None \<Rightarrow> False
                      | Some os \<Rightarrow> IGNORE_USER_PROFILE_SERVICE \<in> set os)
                  then None
                  else (case experiment_bucket_map (tracker_user_profile t) (experiment_id exp) of
                          None \<Rightarrow> None
                        | Some vid \<Rightarrow>
                            if vid = [] then None
                            else get_variation_from_id cfg (experiment_key exp) vid)) of
          Some v \<Rightarrow> Some v
        | None \<Rightarrow>
          if fst (does_user_meet_audience_conditions E cfg
                    (case audienceConditions exp of
                       Some cs \<Rightarrow> cs
                     | None \<Rightarrow> map AudienceId (audienceIds exp))
                    ExperimentAudienceEvaluationLogs (experiment_key exp) ctx)
          then fst (bucket E cfg exp (user_id ctx)
                      (case user_attributes ctx of
                         None \<Rightarrow> user_id ctx
                       | Some a \<Rightarrow>
                          (case a BUCKETING_ID of Some (AStr s) \<Rightarrow> s | _ \<Rightarrow> user_id ctx)))
          else None)))
     \<and> (\<forall>e vid v. get_experiment_from_key cfg (experiment_key exp) = Some e
            \<and> forced_entry fvm (user_id ctx) (experiment_id e) = Some vid
            \<and> get_variation_from_id cfg (experiment_key exp) vid = Some v
          \<longrightarrow> fst (get_variation E fvm cfg exp ctx tracker reasons options) = Some v)"
  (is "_ \<longrightarrow> ?layers \<and> ?store")
proof
  assume "status exp = ''Running''"
  then have running: "is_experiment_running exp"
    by (simp add: is_experiment_running_def)
  have calls: "fst (get_variation E fvm cfg exp ctx tracker reasons options) =
       (case fst (get_forced_variation fvm cfg (experiment_key exp) (user_id ctx)) of
          Some v \<Rightarrow> Some v
        | None \<Rightarrow>
       (case fst (get_whitelisted_variation cfg exp (user_id ctx)) of
          Some v \<Rightarrow> Some v
        | None \<Rightarrow>
       (case (case tracker of
                None \<Rightarrow> None
              | Some t \<Rightarrow> if ignore_user_profile options then None
                          else get_stored_variation cfg exp (get_user_profile t)) of
          Some v \<Rightarrow> Some v
        | None \<Rightarrow>
          if fst (does_user_meet_audience_conditions E cfg (get_audience_conditions_or_ids exp)
                    ExperimentAudienceEvaluationLogs (experiment_key exp) ctx)
          then fst (bucket E cfg exp (user_id ctx)
                      (fst (get_bucketing_id (user_id ctx) (user_attributes ctx))))
          else None)))"
  proof -
    obtain fv fr where forced:
      "get_forced_variation fvm cfg (experiment_key exp) (user_id ctx) = (fv, fr)"
      by (metis prod.collapse)
    obtain wv wr where whitelisted:
      "get_whitelisted_variation cfg exp (user_id ctx) = (wv, wr)"
      by (metis prod.collapse)
    obtain am ar where audience:
      "does_user_meet_audience_conditions E cfg (get_audience_conditions_or_ids exp)
         ExperimentAudienceEvaluationLogs (experiment_key exp) ctx = (am, ar)"
      by (metis prod.collapse)
    obtain bid br where bid:
      "get_bucketing_id (user_id ctx) (user_attributes ctx) = (bid, br)"
      by (metis prod.collapse)
    obtain bv bvr where bucketed: "bucket E cfg exp (user_id ctx) bid = (bv, bvr)"
      by (metis prod.collapse)
    from running show ?thesis
      by (simp add: get_variation_def Let_def forced whitelisted audience bid bucketed
          split: option.splits)
  qed
  have layers: ?layers
    using calls
    unfolding get_forced_variation_reads get_whitelisted_variation_reads
      get_stored_variation_reads ignore_user_profile_reads get_bucketing_id_reads
      get_audience_conditions_or_ids_def
    .
  have store: ?store
  proof (intro allI impI)
    fix e vid v
    assume entry: "get_experiment_from_key cfg (experiment_key exp) = Some e
            \<and> forced_entry fvm (user_id ctx) (experiment_id e) = Some vid
            \<and> get_variation_from_id cfg (experiment_key exp) vid = Some v"
    with layers show "fst (get_variation E fvm cfg exp ctx tracker reasons options) = Some v"
      by simp
  qed
  from layers store show "?layers \<and> ?store" by (rule conjI)
qed

text \<open>In the example the experiment knows two variations; \<open>user_1\<close> is whitelisted into
  \<open>b\<close> and fails the audience conditions, \<open>user_2\<close> meets them and is bucketed into
  \<open>b\<close>, \<open>user_3\<close> fails them. Each layer decides in its turn: the store entry for
  \<open>a\<close> before the whitelist and a stored \<open>b\<close>; the whitelist before a stored
  \<open>a\<close>; a stored \<open>a\<close> before bucketing; bucketing when the profile is empty or
  ignored; nothing when no layer yields a variation.\<close>

theorem get_variation_precedence_witness:
  "status example_exp = ''Running''
   \<and> fst (get_variation example_collaborators [''user_1'' \<mapsto> [(''e1'', ''v1'')]] example_config
            example_exp (example_user ''user_1'')
            (Some (example_tracker ''user_1'' [''e1'' \<mapsto> ''v2''])) [] None) = Some example_var_a
   \<and> fst (get_variation example_collaborators Map.empty example_config
            example_exp (example_user ''user_1'')
            (Some (example_tracker ''user_1'' [''e1'' \<mapsto> ''v1''])) [] None) = Some example_var_b
   \<and> fst (get_variation example_collaborators Map.empty example_config
            example_exp (example_user ''user_2'')
            (Some (example_tracker ''user_2'' [''e1'' \<mapsto> ''v1''])) [] None) = Some example_var_a
   \<and> fst (get_variation example_collaborators Map.empty example_config
            example_exp (example_user ''user_2'')
            (Some (example_tracker ''user_2'' Map.empty)) [] None) = Some example_var_b
   \<and> fst (get_variation example_collaborators Map.empty example_config
            example_exp (example_user ''user_2'')
            (Some (example_tracker ''user_2'' [''e1'' \<mapsto> ''v1''])) []
            (Some [IGNORE_USER_PROFILE_SERVICE])) = Some example_var_b
   \<and> fst (get_variation example_collaborators Map.empty example_config
            example_exp (example_user ''user_3'')
            (Some (example_tracker ''user_3'' Map.empty)) [] None) = None"
proof -
  note example =
    example_config_def example_exp_def example_rule_def example_user_def
    example_collaborators_def example_tracker_def forced_entry_def
  have running: "status example_exp = ''Running''"
    by (simp add: example_exp_def example_rule_def)
  have store: "fst (get_variation example_collaborators [''user_1'' \<mapsto> [(''e1'', ''v1'')]]
        example_config example_exp (example_user ''user_1'')
        (Some (example_tracker ''user_1'' [''e1'' \<mapsto> ''v2''])) [] None) = Some example_var_a"
    by (rule trans [OF get_variation_precedence
      [of example_exp example_collaborators "[''user_1'' \<mapsto> [(''e1'', ''v1'')]]" example_config
          "example_user ''user_1''" "Some (example_tracker ''user_1'' [''e1'' \<mapsto> ''v2''])"
          "[]" None, THEN mp, OF running, THEN conjunct1]])
      (simp add: example)
  have whitelist: "fst (get_variation example_collaborators Map.empty example_config
        example_exp (example_user ''user_1'')
        (Some (example_tracker ''user_1'' [''e1'' \<mapsto> ''v1''])) [] None) = Some example_var_b"
    by (rule trans [OF get_variation_precedence
      [of example_exp example_collaborators Map.empty example_config
          "example_user ''user_1''" "Some (example_tracker ''user_1'' [''e1'' \<mapsto> ''v1''])"
          "[]" None, THEN mp, OF running, THEN conjunct1]])
      (simp add: example)
  have profile: "fst (get_variation example_collaborators Map.empty example_config
        example_exp (example_user ''user_2'')
        (Some (example_tracker ''user_2'' [''e1'' \<mapsto> ''v1''])) [] None) = Some example_var_a"
    by (rule trans [OF get_variation_precedence
      [of example_exp example_collaborators Map.empty example_config
          "example_user ''user_2''" "Some (example_tracker ''user_2'' [''e1'' \<mapsto> ''v1''])"
          "[]" None, THEN mp, OF running, THEN conjunct1]])
      (simp add: example)
  have bucketing: "fst (get_variation example_collaborators Map.empty example_config
        example_exp (example_user ''user_2'')
        (Some (example_tracker ''user_2'' Map.empty)) [] None) = Some example_var_b"
    by (rule trans [OF get_variation_precedence
      [of example_exp example_collaborators Map.empty example_config
          "example_user ''user_2''" "Some (example_tracker ''user_2'' Map.empty)"
          "[]" None, THEN mp, OF running, THEN conjunct1]])
      (simp add: example)
  have ignored: "fst (get_variation example_collaborators Map.empty example_config
        example_exp (example_user ''user_2'')
        (Some (example_tracker ''user_2'' [''e1'' \<mapsto> ''v1''])) []
        (Some [IGNORE_USER_PROFILE_SERVICE])) = Some example_var_b"
    by (rule trans [OF get_variation_precedence
      [of example_exp example_collaborators Map.empty example_config
          "example_user ''user_2''" "Some (example_tracker ''user_2'' [''e1'' \<mapsto> ''v1''])"
          "[]" "Some [IGNORE_USER_PROFILE_SERVICE]", THEN mp, OF running, THEN conjunct1]])
      (simp add: example)
  have none: "fst (get_variation example_collaborators Map.empty example_config
        example_exp (example_user ''user_3'')
        (Some (example_tracker ''user_3'' Map.empty)) [] None) = None"
    by (rule trans [OF get_variation_precedence
      [of example_exp example_collaborators Map.empty example_config
          "example_user ''user_3''" "Some (example_tracker ''user_3'' Map.empty)"
          "[]" None, THEN mp, OF running, THEN conjunct1]])
      (simp add: example)
  show ?thesis
    by (simp only: running store whitelist profile bucketing ignored none simp_thms)
qed

section \<open>Feature decisions\<close>

text \<open>The outer loop appends one entry for each feature it is given.\<close>

lemma features_loop_length:
  "features_loop E svc cfg ctx options dr features decisions tracker = Some (ds, tracker')
    \<Longrightarrow> length ds = length decisions + length features"
proof (induction features arbitrary: decisions tracker)
  case Nil
  then show ?case by simp
next
  case (Cons feature features)
  obtain found frs t where inner:
    "feature_experiments E svc cfg feature ctx options (experimentIds feature) dr tracker
      = (found, frs, t)"
    by (metis prod.collapse)
  show ?case
  proof (cases found)
    case (Some d)
    with Cons.prems inner
    have "features_loop E svc cfg ctx options dr features (decisions @ [(d, frs)]) t
            = Some (ds, tracker')"
      by simp
    then have "length ds = length (decisions @ [(d, frs)]) + length features"
      by (rule Cons.IH)
    then show ?thesis by simp
  next
    case None
    with Cons.prems inner obtain rd rrs where
      "features_loop E svc cfg ctx options dr features (decisions @ [(rd, frs @ rrs)]) t
         = Some (ds, tracker')"
      by (auto split: option.splits)
    then have "length ds = length (decisions @ [(rd, frs @ rrs)]) + length features"
      by (rule Cons.IH)
    then show ?thesis by simp
  qed
qed

text \<open>The outer loop returns when the rollout evaluation of every feature returns.\<close>

lemma features_loop_returns:
  "\<forall>feature \<in> set features. get_variation_for_rollout E cfg feature ctx \<noteq> None
    \<Longrightarrow> \<exists>r. features_loop E svc cfg ctx options dr features decisions tracker = Some r"
proof (induction features arbitrary: decisions tracker)
  case Nil
  then show ?case by simp
next
  case (Cons feature features)
  obtain found frs t where inner:
    "feature_experiments E svc cfg feature ctx options (experimentIds feature) dr tracker
      = (found, frs, t)"
    by (metis prod.collapse)
  from Cons.prems obtain rd rrs where
    rollout: "get_variation_for_rollout E cfg feature ctx = Some (rd, rrs)"
    by fastforce
  from Cons.prems
  have rest: "\<exists>r. features_loop E svc cfg ctx options dr features acc t = Some r" for acc
    by (intro Cons.IH) simp
  show ?case
  proof (cases found)
    case (Some d)
    with inner rest [of "decisions @ [(d, frs)]"] show ?thesis by simp
  next
    case None
    with inner rollout rest [of "decisions @ [(rd, frs @ rrs)]"] show ?thesis by simp
  qed
qed

text \<open>
  C6. With a user profile service and without the option to ignore it, a call of
  \<open>get_variations_for_feature_list\<close> adds to the calls received by the service one
  lookup of the user's profile, and after it nothing or one save: whatever the number of
  features, and also when the call never returns.
\<close>

theorem profile_loaded_once_saved_at_most_once:
  "user_profile_service svc = Some ups \<and> \<not> ignore_user_profile options \<longrightarrow>
     (\<exists>tail. snd (get_variations_for_feature_list E svc cfg features ctx options calls)
               = calls @ Lookup (user_id ctx) # tail
            \<and> (tail = [] \<or> (\<exists>profile. tail = [Save profile])))"
proof
  assume service: "user_profile_service svc = Some ups \<and> \<not> ignore_user_profile options"
  obtain t calls' where
    load: "load_user_profile ups (UserProfileTracker (user_id ctx)) calls = (t, calls')"
    by (metis prod.collapse)
  then have loaded: "calls' = calls @ [Lookup (user_id ctx)]"
    by (auto simp add: load_user_profile_def UserProfileTracker_def split: option.splits)
  show "\<exists>tail. snd (get_variations_for_feature_list E svc cfg features ctx options calls)
               = calls @ Lookup (user_id ctx) # tail
            \<and> (tail = [] \<or> (\<exists>profile. tail = [Save profile]))"
  proof (cases "features_loop E svc cfg ctx options [] features [] (Some t)")
    case None
    with service load loaded
    have "snd (get_variations_for_feature_list E svc cfg features ctx options calls)
            = calls @ Lookup (user_id ctx) # []"
      by (simp add: get_variations_for_feature_list_def)
    then show ?thesis by blast
  next
    case (Some r)
    obtain ds tracker where r: "r = (ds, tracker)" by (cases r)
    show ?thesis
    proof (cases "case tracker of None \<Rightarrow> False | Some t' \<Rightarrow> profile_updated t'")
      case True
      then obtain t' where "tracker = Some t'" and "profile_updated t'"
        by (cases tracker) simp_all
      with service load loaded Some r
      have "snd (get_variations_for_feature_list E svc cfg features ctx options calls)
              = calls @ Lookup (user_id ctx) # [Save (tracker_user_profile t')]"
        by (simp add: get_variations_for_feature_list_def save_user_profile_def)
      then show ?thesis by blast
    next
      case False
      with service load loaded Some r
      have "snd (get_variations_for_feature_list E svc cfg features ctx options calls)
              = calls @ Lookup (user_id ctx) # []"
        by (simp add: get_variations_for_feature_list_def save_user_profile_def
            split: option.splits)
      then show ?thesis by blast
    qed
  qed
qed

text \<open>In the example, \<open>user_2\<close> is bucketed into the experiment at the first feature,
  which records the decision in the profile, and is served from the profile at the second:
  one lookup, then one save.\<close>

theorem profile_loaded_once_saved_at_most_once_witness:
  "user_profile_service example_service = Some \<lparr>lookup = (\<lambda>uid. None)\<rparr>
   \<and> \<not> ignore_user_profile None
   \<and> (\<exists>tail. snd (get_variations_for_feature_list example_collaborators example_service
                   example_config [example_feature, example_feature] (example_user ''user_2'')
                   None [])
               = [] @ Lookup (user_id (example_user ''user_2'')) # tail
            \<and> (tail = [] \<or> (\<exists>profile. tail = [Save profile])))
   \<and> map (\<lambda>c. case c of Lookup u \<Rightarrow> (u, None)
                   | Save p \<Rightarrow> (profile_user_id p, experiment_bucket_map p ''e1''))
       (snd (get_variations_for_feature_list example_collaborators example_service
               example_config [example_feature, example_feature] (example_user ''user_2'')
               None []))
     = [(''user_2'', None), (''user_2'', Some ''v2'')]"
proof -
  have service: "user_profile_service example_service = Some \<lparr>lookup = (\<lambda>uid. None)\<rparr>"
    by (simp add: example_service_def)
  have options: "\<not> ignore_user_profile None"
    by (simp add: ignore_user_profile_def)
  have calls: "map (\<lambda>c. case c of Lookup u \<Rightarrow> (u, None)
                   | Save p \<Rightarrow> (profile_user_id p, experiment_bucket_map p ''e1''))
       (snd (get_variations_for_feature_list example_collaborators example_service
               example_config [example_feature, example_feature] (example_user ''user_2'')
               None []))
     = [(''user_2'', None), (''user_2'', Some ''v2'')]"
    by code_simp
  from service options
    profile_loaded_once_saved_at_most_once
      [of example_service "\<lparr>lookup = (\<lambda>uid. None)\<rparr>" None example_collaborators
          example_config "[example_feature, example_feature]" "example_user ''user_2''" "[]"]
  have "\<exists>tail. snd (get_variations_for_feature_list example_collaborators example_service
                   example_config [example_feature, example_feature] (example_user ''user_2'')
                   None [])
               = [] @ Lookup (user_id (example_user ''user_2'')) # tail
            \<and> (tail = [] \<or> (\<exists>profile. tail = [Save profile]))"
    by blast
  with service options calls show ?thesis by blast
qed

text \<open>The decisions of a call are those of the outer loop.\<close>

lemma feature_list_decisions:
  "\<exists>tracker. fst (get_variations_for_feature_list E svc cfg features ctx options calls)
      = map_option fst (features_loop E svc cfg ctx options [] features [] tracker)"
proof -
  define loaded where "loaded =
     (case user_profile_service svc of
        Some ups \<Rightarrow>
          if \<not> ignore_user_profile options then
            (case load_user_profile ups (UserProfileTracker (user_id ctx)) calls of
               (t, calls') \<Rightarrow> (Some t, calls'))
          else (None, calls)
      | None \<Rightarrow> (None, calls))"
  have "fst (get_variations_for_feature_list E svc cfg features ctx options calls)
      = map_option fst (features_loop E svc cfg ctx options [] features [] (fst loaded))"
    unfolding get_variations_for_feature_list_def Let_def loaded_def [symmetric]
    by (cases "features_loop E svc cfg ctx options [] features [] (fst loaded)") auto
  then show ?thesis ..
qed

text \<open>
  C10. \<open>get_variation_for_feature\<close> gives what \<open>get_variations_for_feature_list\<close>
  gives for the list of the one feature: the same calls to the profile service, no result
  when the list call has none, and otherwise the only element of the list, so that taking
  element 0 never fails.
\<close>

theorem get_variation_for_feature_is_singleton_list:
  "(case fst (get_variations_for_feature_list E svc cfg [feature] ctx options calls) of
      None \<Rightarrow> fst (get_variation_for_feature E svc cfg feature ctx options calls) = None
    | Some ds \<Rightarrow>
        ds = [ds ! 0]
        \<and> fst (get_variation_for_feature E svc cfg feature ctx options calls)
            = Some (Inr (ds ! 0)))
   \<and> snd (get_variation_for_feature E svc cfg feature ctx options calls)
       = snd (get_variations_for_feature_list E svc cfg [feature] ctx options calls)"
proof -
  obtain r calls' where
    list: "get_variations_for_feature_list E svc cfg [feature] ctx options calls = (r, calls')"
    by (metis prod.collapse)
  show ?thesis
  proof (cases r)
    case None
    with list show ?thesis by (simp add: get_variation_for_feature_def)
  next
    case (Some ds)
    from list Some
    have "fst (get_variations_for_feature_list E svc cfg [feature] ctx options calls) = Some ds"
      by simp
    moreover obtain t where
      "fst (get_variations_for_feature_list E svc cfg [feature] ctx options calls)
         = map_option fst (features_loop E svc cfg ctx options [] [feature] [] t)"
      using feature_list_decisions [of E svc cfg "[feature]" ctx options calls] ..
    ultimately have "map_option fst (features_loop E svc cfg ctx options [] [feature] [] t)
        = Some ds"
      by (simp only:)
    then obtain t' where
      "features_loop E svc cfg ctx options [] [feature] [] t = Some (ds, t')"
      by (cases "features_loop E svc cfg ctx options [] [feature] [] t")
        (auto simp del: features_loop.simps)
    then have "length ds = length ([] :: (decision \<times> string list) list) + length [feature]"
      by (rule features_loop_length)
    then obtain d where "ds = [d]"
      by (cases ds) simp_all
    with list Some show ?thesis by (simp add: get_variation_for_feature_def)
  qed
qed

theorem get_variation_for_feature_is_singleton_list_witness:
  "map_option (map (\<lambda>(d, rs). (map_option experiment_key (experiment d),
                                map_option variation_key (variation d), source d)))
     (fst (get_variations_for_feature_list example_collaborators example_service example_config
             [example_feature] (example_user ''user_2'') None []))
     = Some [(Some ''exp_1'', Some ''b'', Some FEATURE_TEST)]
   \<and> map_option (map_sum id (\<lambda>(d, rs). (map_option experiment_key (experiment d),
                                map_option variation_key (variation d), source d)))
       (fst (get_variation_for_feature example_collaborators example_service example_config
               example_feature (example_user ''user_2'') None []))
     = Some (Inr (Some ''exp_1'', Some ''b'', Some FEATURE_TEST))
   \<and> snd (get_variation_for_feature example_collaborators example_service example_config
            example_feature (example_user ''user_2'') None [])
     = snd (get_variations_for_feature_list example_collaborators example_service example_config
              [example_feature] (example_user ''user_2'') None [])"
proof -
  let ?list = "get_variations_for_feature_list example_collaborators example_service
      example_config [example_feature] (example_user ''user_2'') None []"
  let ?one = "get_variation_for_feature example_collaborators example_service example_config
      example_feature (example_user ''user_2'') None []"
  let ?view = "\<lambda>(d, rs). (map_option experiment_key (experiment d),
                           map_option variation_key (variation d), source d)"
  have run: "map_option (map ?view) (fst ?list)
               = Some [(Some ''exp_1'', Some ''b'', Some FEATURE_TEST)]"
    by code_simp
  then obtain ds where ds: "fst ?list = Some ds"
    and view: "map ?view ds = [(Some ''exp_1'', Some ''b'', Some FEATURE_TEST)]"
    by (cases "fst ?list") simp_all
  note singleton = get_variation_for_feature_is_singleton_list
    [of example_collaborators example_service example_config example_feature
        "example_user ''user_2''" None "[]"]
  from singleton have calls: "snd ?one = snd ?list" by (rule conjunct2)
  from singleton ds have "ds = [ds ! 0] \<and> fst ?one = Some (Inr (ds ! 0))"
    by (simp only: option.case)
  then have only: "ds = [ds ! 0]" and one: "fst ?one = Some (Inr (ds ! 0))"
    by (rule conjunct1, rule conjunct2)
  from only have "map ?view ds = map ?view [ds ! 0]"
    by (rule arg_cong)
  with view have "?view (ds ! 0) = (Some ''exp_1'', Some ''b'', Some FEATURE_TEST)"
    by (simp only: list.map list.inject)
  with one have "map_option (map_sum id ?view) (fst ?one)
      = Some (Inr (Some ''exp_1'', Some ''b'', Some FEATURE_TEST))"
    by simp
  from conjI [OF run conjI [OF this calls]] show ?thesis .
qed

text \<open>The example flag whose rollout holds a rule that the config does not know: its
  rollout evaluation never returns.\<close>

lemma example_rollout_never_returns:
  "get_variation_for_rollout example_collaborators example_config example_feature_x
     (example_user uid) = None"
proof -
  have "stuck_at example_collaborators example_config example_feature_x (example_user uid)
          [example_rule ''rx'' ''rule_x''] 0"
    by (simp add: stuck_at_def validated_forced_decision_def get_forced_decision_def
        example_user_def example_config_def example_rule_def)
  then have "rollout_loop example_collaborators example_config example_feature_x
      (example_user uid) [example_rule ''rx'' ''rule_x''] 0 [] = None"
    by (rule rollout_loop_stuck)
  then show ?thesis
    by (simp add: get_variation_for_rollout_def example_feature_x_def example_config_def)
qed

text \<open>
  C5 on that flag: the call for the list of the one feature loads the profile and never
  returns, so no decision is recorded for the feature.
\<close>

theorem feature_list_no_decision_for_unresolved_rule:
  "get_variations_for_feature_list example_collaborators example_service example_config
     [example_feature_x] (example_user ''user_1'') None []
   = (None, [Lookup ''user_1''])"
proof -
  let ?u = "example_user ''user_1''"
  have inner: "feature_experiments example_collaborators example_service example_config
      example_feature_x ?u None (experimentIds example_feature_x) [] t = (None, [], t)" for t
    by (simp add: example_feature_x_def)
  have loop: "features_loop example_collaborators example_service example_config ?u None []
      [example_feature_x] [] t = None" for t
    by (simp add: inner example_rollout_never_returns)
  have service: "user_profile_service example_service = Some \<lparr>lookup = (\<lambda>uid. None)\<rparr>"
    by (simp add: example_service_def)
  have load: "load_user_profile \<lparr>lookup = (\<lambda>uid. None)\<rparr> (UserProfileTracker (user_id ?u)) []
      = (UserProfileTracker ''user_1'', [Lookup ''user_1''])"
    by (simp add: load_user_profile_def UserProfileTracker_def example_user_def)
  show ?thesis
    by (simp add: get_variations_for_feature_list_def service load loop ignore_user_profile_def
        del: features_loop.simps)
qed

section \<open>One decision for each feature\<close>

text \<open>The reasons handed to \<open>get_variation\<close> do not change the variation, and the
  tracker changes only when a variation is found.\<close>

lemma get_variation_reasons:
  "fst (get_variation E fvm cfg exp ctx tracker rs options)
   = fst (get_variation E fvm cfg exp ctx tracker [] options)"
proof -
  obtain fv fr where forced:
    "get_forced_variation fvm cfg (experiment_key exp) (user_id ctx) = (fv, fr)"
    by (metis prod.collapse)
  obtain wv wr where whitelisted:
    "get_whitelisted_variation cfg exp (user_id ctx) = (wv, wr)"
    by (metis prod.collapse)
  obtain am ar where audience:
    "does_user_meet_audience_conditions E cfg (get_audience_conditions_or_ids exp)
       ExperimentAudienceEvaluationLogs (experiment_key exp) ctx = (am, ar)"
    by (metis prod.collapse)
  obtain bid br where bid:
    "get_bucketing_id (user_id ctx) (user_attributes ctx) = (bid, br)"
    by (metis prod.collapse)
  obtain bv bvr where bucketed: "bucket E cfg exp (user_id ctx) bid = (bv, bvr)"
    by (metis prod.collapse)
  show ?thesis
    by (simp add: get_variation_def Let_def forced whitelisted audience bid bucketed
        split: option.splits)
qed

lemma get_variation_tracker_kept:
  assumes "fst (get_variation E fvm cfg exp ctx tracker rs options) = None"
  shows "snd (snd (get_variation E fvm cfg exp ctx tracker rs options)) = tracker"
proof -
  obtain fv fr where forced:
    "get_forced_variation fvm cfg (experiment_key exp) (user_id ctx) = (fv, fr)"
    by (metis prod.collapse)
  obtain wv wr where whitelisted:
    "get_whitelisted_variation cfg exp (user_id ctx) = (wv, wr)"
    by (metis prod.collapse)
  obtain am ar where audience:
    "does_user_meet_audience_conditions E cfg (get_audience_conditions_or_ids exp)
       ExperimentAudienceEvaluationLogs (experiment_key exp) ctx = (am, ar)"
    by (metis prod.collapse)
  obtain bid br where bid:
    "get_bucketing_id (user_id ctx) (user_attributes ctx) = (bid, br)"
    by (metis prod.collapse)
  obtain bv bvr where bucketed: "bucket E cfg exp (user_id ctx) bid = (bv, bvr)"
    by (metis prod.collapse)
  from assms show ?thesis
    by (simp add: get_variation_def Let_def forced whitelisted audience bid bucketed
        split: option.splits if_splits)
qed

text \<open>The inner loop finds the decision of the first experiment id that yields a
  variation, and leaves the tracker as it was when it finds none.\<close>

lemma feature_experiments_first_match:
  "fst (feature_experiments E svc cfg feature ctx options ids rs tracker)
     = first_experiment_decision E svc cfg feature ctx options tracker ids
   \<and> (fst (feature_experiments E svc cfg feature ctx options ids rs tracker) = None
        \<longrightarrow> snd (snd (feature_experiments E svc cfg feature ctx options ids rs tracker))
            = tracker)"
proof (induction ids arbitrary: rs)
  case Nil
  show ?case by (simp add: first_experiment_decision_def List.map_filter_simps)
next
  case (Cons eid ids)
  show ?case
  proof (cases "get_experiment_from_id cfg eid")
    case None
    with Cons.IH [of rs] show ?thesis
      by (simp add: first_experiment_decision_def experiment_variation_def
          List.map_filter_simps)
  next
    case (Some exp)
    obtain fdv frs where forced:
      "validated_forced_decision E cfg (feature_key feature, Some (experiment_key exp)) ctx
        = (fdv, frs)"
      by (metis prod.collapse)
    show ?thesis
    proof (cases fdv)
      case (Some v)
      with \<open>get_experiment_from_id cfg eid = Some exp\<close> forced show ?thesis
        by (simp add: first_experiment_decision_def experiment_variation_def
            List.map_filter_simps)
    next
      case None
      obtain dv vrs t where decided:
        "get_variation E (forced_variation_map svc) cfg exp ctx tracker (rs @ frs) options
          = (dv, vrs, t)"
        by (metis prod.collapse)
      then have same: "fst (get_variation E (forced_variation_map svc) cfg exp ctx tracker []
                         options) = dv"
        using get_variation_reasons
          [of E "forced_variation_map svc" cfg exp ctx tracker "rs @ frs" options]
        by simp
      show ?thesis
      proof (cases dv)
        case (Some v)
        with \<open>get_experiment_from_id cfg eid = Some exp\<close> forced \<open>fdv = None\<close> decided same
        show ?thesis
          by (simp add: first_experiment_decision_def experiment_variation_def
              List.map_filter_simps)
      next
        case None
        with decided have "t = tracker"
          using get_variation_tracker_kept
            [of E "forced_variation_map svc" cfg exp ctx tracker "rs @ frs" options]
          by simp
        with \<open>get_experiment_from_id cfg eid = Some exp\<close> forced \<open>fdv = None\<close> decided same None
          Cons.IH [of "(rs @ frs) @ vrs"]
        show ?thesis
          by (simp add: first_experiment_decision_def experiment_variation_def
              List.map_filter_simps)
      qed
    qed
  qed
qed

text \<open>The outer loop keeps the entries it was given and appends, feature by feature and in
  the order of the features, the decision of each.\<close>

lemma features_loop_entries:
  "features_loop E svc cfg ctx options dr features decisions tracker = Some (ds, tracker')
    \<Longrightarrow> \<exists>new. ds = decisions @ new
            \<and> list_all2 (feature_decision E svc cfg ctx options) features new"
proof (induction features arbitrary: decisions tracker)
  case Nil
  then show ?case by simp
next
  case (Cons feature features)
  obtain found frs t where inner:
    "feature_experiments E svc cfg feature ctx options (experimentIds feature) dr tracker
      = (found, frs, t)"
    by (metis prod.collapse)
  then have first: "first_experiment_decision E svc cfg feature ctx options tracker
                      (experimentIds feature) = found"
    using feature_experiments_first_match
      [of E svc cfg feature ctx options "experimentIds feature" dr tracker]
    by simp
  show ?case
  proof (cases found)
    case (Some d)
    with Cons.prems inner
    have "features_loop E svc cfg ctx options dr features (decisions @ [(d, frs)]) t
            = Some (ds, tracker')"
      by simp
    then obtain new where new: "ds = (decisions @ [(d, frs)]) @ new"
      and rest: "list_all2 (feature_decision E svc cfg ctx options) features new"
      using Cons.IH by blast
    from first Some have "feature_decision E svc cfg ctx options feature (d, frs)"
      unfolding feature_decision_def by (intro exI [of _ tracker]) simp
    with new rest show ?thesis by simp
  next
    case None
    with Cons.prems inner obtain rd rrs where
      rollout: "get_variation_for_rollout E cfg feature ctx = Some (rd, rrs)"
      and "features_loop E svc cfg ctx options dr features (decisions @ [(rd, frs @ rrs)]) t
         = Some (ds, tracker')"
      by (auto split: option.splits)
    then obtain new where new: "ds = (decisions @ [(rd, frs @ rrs)]) @ new"
      and rest: "list_all2 (feature_decision E svc cfg ctx options) features new"
      using Cons.IH by blast
    from first None rollout
    have "feature_decision E svc cfg ctx options feature (rd, frs @ rrs)"
      unfolding feature_decision_def by (intro exI [of _ tracker]) simp
    with new rest show ?thesis by simp
  qed
qed

text \<open>
  What holds of C5 wherever the rollout evaluations return (as they do when every rollout
  rule resolves in config): the call returns one entry for each feature, in the order of
  the features, and the entry of a feature holds the decision of its first experiment that
  yields a variation, with source \<open>FEATURE_TEST\<close>, or else the decision of its rollout.
\<close>

lemma feature_list_one_decision_per_feature:
  assumes "\<forall>feature \<in> set features. get_variation_for_rollout E cfg feature ctx \<noteq> None"
  shows "\<exists>ds. fst (get_variations_for_feature_list E svc cfg features ctx options calls) = Some ds
            \<and> length ds = length features
            \<and> list_all2 (feature_decision E svc cfg ctx options) features ds"
proof -
  obtain tracker where decisions:
    "fst (get_variations_for_feature_list E svc cfg features ctx options calls)
      = map_option fst (features_loop E svc cfg ctx options [] features [] tracker)"
    using feature_list_decisions [of E svc cfg features ctx options calls] ..
  from assms obtain r where
    "features_loop E svc cfg ctx options [] features [] tracker = Some r"
    using features_loop_returns [of features E cfg ctx svc options "[]" "[]" tracker] by blast
  then obtain ds tracker' where
    loop: "features_loop E svc cfg ctx options [] features [] tracker = Some (ds, tracker')"
    by (cases r) simp
  then have entries: "list_all2 (feature_decision E svc cfg ctx options) features ds"
    using features_loop_entries [of E svc cfg ctx options "[]" features "[]" tracker ds tracker']
    by simp
  then have "length ds = length features"
    by (simp add: list_all2_lengthD)
  with decisions loop entries show ?thesis by simp
qed

lemma rollout_returns_when_rules_resolve:
  assumes "\<forall>rollout. \<forall>rule \<in> set (get_rollout_experiments cfg rollout).
             get_experiment_from_id cfg (experiment_id rule) \<noteq> None"
  shows "get_variation_for_rollout E cfg feature ctx \<noteq> None"
proof -
  have "\<exists>y. rollout_loop E cfg feature ctx (get_rollout_experiments cfg rollout) 0 [] = Some y"
    for rollout
    using assms by (intro rollout_loop_returns) simp
  then show ?thesis
    by (auto simp add: get_variation_for_rollout_def Let_def split: option.splits)
qed

end
